theory Spec2Isabelle
  imports Complex_Main
begin

section \<open>JavaScript objects used as lookup tables\<close>

text \<open>
  Several functions of the repository index an object literal with a string that comes
  from outside (\<^verbatim>\<open>limits[subscriptionPlan]\<close>, \<^verbatim>\<open>pricing[model]\<close>) and then
  fall back with \<^verbatim>\<open>||\<close>. A property read on an object literal first looks at the
  literal's own keys and then at the keys it inherits from \<^verbatim>\<open>Object.prototype\<close>;
  only when both miss is the result \<^verbatim>\<open>undefined\<close>. The inherited members are
  functions (and, for \<^verbatim>\<open>__proto__\<close>, the prototype object): all of them truthy, none
  of them a number.
\<close>

definition object_prototype_keys :: "string list" where
  "object_prototype_keys =
     [''constructor'', ''__defineGetter__'', ''__defineSetter__'', ''hasOwnProperty'',
      ''__lookupGetter__'', ''__lookupSetter__'', ''isPrototypeOf'',
      ''propertyIsEnumerable'', ''toString'', ''valueOf'', ''__proto__'',
      ''toLocaleString'']"

datatype 'a js_prop = Own 'a | Inherited | Undefined

definition js_get :: "(string \<times> 'a) list \<Rightarrow> string \<Rightarrow> 'a js_prop" where
  "js_get obj k =
     (case map_of obj k of
        Some v \<Rightarrow> Own v
      | None \<Rightarrow> if k \<in> set object_prototype_keys then Inherited else Undefined)"

text \<open>A value that may be \<^verbatim>\<open>null\<close> is used as a key through its string form.\<close>

definition js_key :: "string option \<Rightarrow> string" where
  "js_key k = (case k of None \<Rightarrow> ''null'' | Some s \<Rightarrow> s)"


section \<open>JavaScript numbers\<close>

text \<open>
  A finite JavaScript number is an IEEE 754 double: an integer mantissa of at most 53
  bits times a power of two. Every arithmetic result and every decimal literal is the
  exactly computed value rounded to the nearest double, ties to the even mantissa.
  \<open>nearest_double a b e\<close> is that rounding of \<open>(a / b) * 2 ^ e\<close> for \<open>a \<ge> 0\<close> and
  \<open>b > 0\<close>: the fraction is scaled until the quotient lies in \<open>[2^52, 2^53)\<close> and then
  rounded to an integer. A normal double has its exponent, for a 53 bit mantissa,
  between \<open>-1074\<close> and \<open>971\<close>; a value outside the normal range (overflow to
  \<^verbatim>\<open>Infinity\<close>, subnormal) gives \<open>None\<close> and is not computed by this model.
\<close>

record double =
  mantissa :: int
  exponent :: int

definition val :: "double \<Rightarrow> rat" where
  "val d = of_int (mantissa d) * 2 powi exponent d"

definition round_half_even_div :: "int \<Rightarrow> int \<Rightarrow> int" where
  "round_half_even_div a b =
     (let f = a div b; r = 2 * (a mod b) in
      if r < b then f
      else if b < r then f + 1
      else if even f then f else f + 1)"

fun normalise :: "nat \<Rightarrow> int \<Rightarrow> int \<Rightarrow> int \<Rightarrow> (int \<times> int \<times> int) option" where
  "normalise 0 a b e = None"
| "normalise (Suc n) a b e =
     (if a < 4503599627370496 * b then normalise n (2 * a) b (e - 1)
      else if 9007199254740992 * b \<le> a then normalise n a (2 * b) (e + 1)
      else Some (a, b, e))"

definition nearest_double :: "int \<Rightarrow> int \<Rightarrow> int \<Rightarrow> double option" where
  "nearest_double a b e =
     (if a = 0 then Some \<lparr>mantissa = 0, exponent = 0\<rparr>
      else case normalise 1100 a b e of
        None \<Rightarrow> None
      | Some (a', b', e') \<Rightarrow>
          (let m = round_half_even_div a' b' in
           if - 1074 \<le> e' \<and> e' \<le> 971 \<and> (m < 9007199254740992 \<or> e' < 971)
           then Some \<lparr>mantissa = m, exponent = e'\<rparr>
           else None))"

text \<open>
  \<open>NaN\<close> is the result of arithmetic on a non-number; \<open>OutOfRange\<close> stands for a
  result outside the normal range.
\<close>

datatype js_number = Num double | NaN | OutOfRange

definition to_number :: "double option \<Rightarrow> js_number" where
  "to_number d = (case d of None \<Rightarrow> OutOfRange | Some x \<Rightarrow> Num x)"

text \<open>The decimal literal \<open>a / 10 ^ k\<close>, a token count, and the product \<^verbatim>\<open>x * y\<close>.\<close>

definition decimal :: "nat \<Rightarrow> nat \<Rightarrow> js_number" where
  "decimal a k = to_number (nearest_double (int a) (10 ^ k) 0)"

definition number_of_nat :: "nat \<Rightarrow> js_number" where
  "number_of_nat n = to_number (nearest_double (int n) 1 0)"

fun js_times :: "js_number \<Rightarrow> js_number \<Rightarrow> js_number" where
  "js_times (Num x) (Num y) =
     to_number (nearest_double (mantissa x * mantissa y) 1 (exponent x + exponent y))"
| "js_times NaN _ = NaN"
| "js_times _ NaN = NaN"
| "js_times _ _ = OutOfRange"


section \<open>Quota guard: \<^verbatim>\<open>checkSubscriptionLimits\<close> (api-gateway, middleware/tenant.js)\<close>

text \<open>
  The middleware is built for one of four metered features; the \<^verbatim>\<open>switch\<close> of the
  source has exactly these four cases, and the routes pass the feature as a literal.
\<close>

datatype feature = ai_requests_per_month | storage_gb | team_members | webhooks

record plan_limits =
  pl_ai_requests_per_month :: int
  pl_storage_gb :: int
  pl_team_members :: int
  pl_webhooks :: int

definition free_limits :: plan_limits where
  "free_limits = \<lparr>pl_ai_requests_per_month = 100, pl_storage_gb = 1,
                   pl_team_members = 3, pl_webhooks = 1\<rparr>"

definition basic_limits :: plan_limits where
  "basic_limits = \<lparr>pl_ai_requests_per_month = 1000, pl_storage_gb = 10,
                    pl_team_members = 10, pl_webhooks = 5\<rparr>"

definition pro_limits :: plan_limits where
  "pro_limits = \<lparr>pl_ai_requests_per_month = 10000, pl_storage_gb = 100,
                  pl_team_members = 50, pl_webhooks = 25\<rparr>"

definition enterprise_limits :: plan_limits where
  "enterprise_limits = \<lparr>pl_ai_requests_per_month = - 1, pl_storage_gb = - 1,
                         pl_team_members = - 1, pl_webhooks = - 1\<rparr>"

definition limits :: "(string \<times> plan_limits) list" where
  "limits = [(''free'', free_limits), (''basic'', basic_limits),
             (''pro'', pro_limits), (''enterprise'', enterprise_limits)]"

fun plan_field :: "plan_limits \<Rightarrow> feature \<Rightarrow> int" where
  "plan_field p ai_requests_per_month = pl_ai_requests_per_month p"
| "plan_field p storage_gb = pl_storage_gb p"
| "plan_field p team_members = pl_team_members p"
| "plan_field p webhooks = pl_webhooks p"

text \<open>
  \<^verbatim>\<open>const planLimits = limits[subscriptionPlan] || limits.free;\<close>
  \<^verbatim>\<open>const limit = planLimits[feature];\<close>
  The result is \<open>None\<close> when \<^verbatim>\<open>limit\<close> is \<^verbatim>\<open>undefined\<close>: the plan string named
  an inherited member, which is truthy (so the fallback is not taken) and has none of
  the four feature keys.
\<close>

definition planLimits :: "string option \<Rightarrow> plan_limits js_prop" where
  "planLimits subscriptionPlan =
     (case js_get limits (js_key subscriptionPlan) of
        Own p \<Rightarrow> Own p
      | Inherited \<Rightarrow> Inherited
      | Undefined \<Rightarrow> Own free_limits)"

definition limit_of :: "string option \<Rightarrow> feature \<Rightarrow> int option" where
  "limit_of subscriptionPlan f =
     (case planLimits subscriptionPlan of
        Own p \<Rightarrow> Some (plan_field p f)
      | _ \<Rightarrow> None)"

text \<open>
  The four counting queries of the middleware, as the numbers the database returns for
  the tenant: jobs created since the first of the month, distinct team members, active
  webhooks, and the summed file size in bytes.
\<close>

record usage_rows =
  ai_jobs_this_month :: nat
  distinct_team_members :: nat
  active_webhooks :: nat
  files_total_size :: int

text \<open>
  \<^verbatim>\<open>Math.ceil(parseInt(total_size) / (1024 * 1024 * 1024))\<close> for the storage feature.
  The driver hands the sum of the \<^verbatim>\<open>BIGINT\<close> sizes over as a decimal string;
  \<^verbatim>\<open>parseInt\<close> gives the double nearest to it, so a sum beyond \<open>2^53\<close> bytes is
  rounded. The division by \<open>2^30\<close> only lowers the exponent of that double and
  \<^verbatim>\<open>Math.ceil\<close> is exact. A sum of \<^verbatim>\<open>BIGINT\<close> sizes over the rows of one table
  stays far below \<open>2^1024\<close>, where \<^verbatim>\<open>parseInt\<close> would overflow; the exact quotient
  stands in there. The three row counts are below \<open>2^53\<close>, where \<^verbatim>\<open>parseInt\<close> is
  exact.
\<close>

definition parseInt :: "int \<Rightarrow> rat" where
  "parseInt n =
     (case nearest_double \<bar>n\<bar> 1 0 of
        Some d \<Rightarrow> if n < 0 then - val d else val d
      | None \<Rightarrow> of_int n)"

definition storage_usage :: "int \<Rightarrow> int" where
  "storage_usage total_size = \<lceil>parseInt total_size / 1073741824\<rceil>"

fun currentUsage :: "feature \<Rightarrow> usage_rows \<Rightarrow> int" where
  "currentUsage ai_requests_per_month r = int (ai_jobs_this_month r)"
| "currentUsage team_members r = int (distinct_team_members r)"
| "currentUsage webhooks r = int (active_webhooks r)"
| "currentUsage storage_gb r = storage_usage (files_total_size r)"

text \<open>\<^verbatim>\<open>currentUsage >= limit\<close>: a comparison with \<^verbatim>\<open>undefined\<close> is false.\<close>

definition js_ge :: "int \<Rightarrow> int option \<Rightarrow> bool" where
  "js_ge a b = (case b of None \<Rightarrow> False | Some l \<Rightarrow> a \<ge> l)"

record limit_exceeded =
  le_status :: nat
  le_error :: string
  le_current_usage :: int
  le_limit :: "int option"
  le_upgrade_url :: string

record usage_info =
  ui_feature :: feature
  ui_current_usage :: int
  ui_limit :: "int option"
  ui_remaining :: "int option"

datatype quota_result =
    Next "usage_info option"
  | Denied limit_exceeded

text \<open>
  The body of the middleware after the tenant has been attached to the request. The
  human-readable \<^verbatim>\<open>message\<close> of the 403 body is left out; every other field is kept.
  \<open>Next None\<close> is the early \<^verbatim>\<open>return next()\<close> of the unlimited branch, which
  attaches no usage information.
\<close>

definition checkSubscriptionLimits :: "feature \<Rightarrow> string option \<Rightarrow> usage_rows \<Rightarrow> quota_result" where
  "checkSubscriptionLimits f subscriptionPlan rows =
     (let limit = limit_of subscriptionPlan f in
      if limit = Some (- 1) then Next None
      else
        let cu = currentUsage f rows in
        if js_ge cu limit then
          Denied \<lparr>le_status = 403, le_error = ''Subscription limit exceeded'',
                  le_current_usage = cu, le_limit = limit,
                  le_upgrade_url = ''/api/payments/upgrade''\<rparr>
        else
          Next (Some \<lparr>ui_feature = f, ui_current_usage = cu, ui_limit = limit,
                      ui_remaining = map_option (\<lambda>l. l - cu) limit\<rparr>))"

fun allowed :: "quota_result \<Rightarrow> bool" where
  "allowed (Next _) = True"
| "allowed (Denied _) = False"

definition jobs :: "nat \<Rightarrow> usage_rows" where
  "jobs n = \<lparr>ai_jobs_this_month = n, distinct_team_members = 0,
             active_webhooks = 0, files_total_size = 0\<rparr>"


section \<open>Hardware classification and model assignment (ai-orchestrator, server.js)\<close>

text \<open>
  \<^verbatim>\<open>HardwareDetector.detectHardware\<close> stores, for the first graphics controller, its
  memory in GB: \<^verbatim>\<open>gpu.vram ? Math.round(gpu.vram / 1024) : 0\<close>, with \<^verbatim>\<open>vram\<close> in MB.
  \<open>None\<close> for \<open>hw_gpu\<close> is the \<^verbatim>\<open>null\<close> the detector starts with and keeps when no
  controller is found or detection raises.
\<close>

record gpu_info =
  gpu_vendor :: string
  gpu_model :: string
  gpu_memory :: nat

record hardware_info =
  hw_cpu_cores :: nat
  hw_memory_total :: nat
  hw_gpu :: "gpu_info option"

definition vram_to_gb :: "nat option \<Rightarrow> nat" where
  "vram_to_gb vram =
     (case vram of
        None \<Rightarrow> 0
      | Some v \<Rightarrow> if v = 0 then 0 else (v + 512) div 1024)"

text \<open>
  The GPU part of the detection, from the list \<^verbatim>\<open>graphics.controllers\<close> of vendor,
  model and optional \<^verbatim>\<open>vram\<close>.
\<close>

definition detected_gpu :: "(string \<times> string \<times> nat option) list \<Rightarrow> gpu_info option" where
  "detected_gpu controllers =
     (case controllers of
        [] \<Rightarrow> None
      | (vendor, model, vram) # _ \<Rightarrow>
          Some \<lparr>gpu_vendor = vendor, gpu_model = model, gpu_memory = vram_to_gb vram\<rparr>)"

text \<open>\<^verbatim>\<open>hasGPU()\<close> and \<^verbatim>\<open>getGPUMemory()\<close> of the detector.\<close>

definition hasGPU :: "hardware_info \<Rightarrow> bool" where
  "hasGPU hw = (case hw_gpu hw of None \<Rightarrow> False | Some g \<Rightarrow> gpu_memory g > 0)"

definition getGPUMemory :: "hardware_info \<Rightarrow> nat" where
  "getGPUMemory hw =
     (if hasGPU hw then (case hw_gpu hw of Some g \<Rightarrow> gpu_memory g | None \<Rightarrow> 0) else 0)"

datatype category = cpu_only | gpu_4gb | gpu_8gb | gpu_16gb

text \<open>The \<^verbatim>\<open>if\<close> chain at the head of \<^verbatim>\<open>autoAssignModels\<close>.\<close>

definition hardware_category :: "hardware_info \<Rightarrow> category" where
  "hardware_category hardware =
     (let gpuMemory = (case hw_gpu hardware of Some g \<Rightarrow> gpu_memory g | None \<Rightarrow> 0) in
      if hw_gpu hardware = None \<or> gpuMemory = 0 then cpu_only
      else if gpuMemory \<le> 4 then gpu_4gb
      else if gpuMemory \<le> 8 then gpu_8gb
      else gpu_16gb)"

text \<open>
  \<^verbatim>\<open>modelConfig.auto_assignment\<close>: one optional list of model names per category.
  An array, also an empty one, is truthy.
\<close>

record auto_assignment =
  aa_cpu_only :: "string list option"
  aa_gpu_4gb :: "string list option"
  aa_gpu_8gb :: "string list option"
  aa_gpu_16gb :: "string list option"

fun aa_entry :: "auto_assignment \<Rightarrow> category \<Rightarrow> string list option" where
  "aa_entry a cpu_only = aa_cpu_only a"
| "aa_entry a gpu_4gb = aa_gpu_4gb a"
| "aa_entry a gpu_8gb = aa_gpu_8gb a"
| "aa_entry a gpu_16gb = aa_gpu_16gb a"

datatype js_error = Error string | ReferenceError string | TypeError string

fun message :: "js_error \<Rightarrow> string" where
  "message (Error m) = m"
| "message (ReferenceError m) = m"
| "message (TypeError m) = m"

text \<open>
  \<^verbatim>\<open>assignedModels = auto_assignment[category] || auto_assignment.cpu_only\<close>, stored
  under the Redis key \<^verbatim>\<open>assigned_models\<close> (with a one hour expiry; an expired or
  missing key is \<open>None\<close> in the model of the store). When neither list exists the
  value is \<^verbatim>\<open>undefined\<close>: \<^verbatim>\<open>redis.set\<close> catches its own failure and the later
  \<^verbatim>\<open>assignedModels.join\<close> raises.
\<close>

definition assignedModels :: "auto_assignment \<Rightarrow> hardware_info \<Rightarrow> string list option" where
  "assignedModels a hardware =
     (case aa_entry a (hardware_category hardware) of
        Some l \<Rightarrow> Some l
      | None \<Rightarrow> aa_cpu_only a)"

definition autoAssignModels ::
  "auto_assignment \<Rightarrow> hardware_info \<Rightarrow> js_error + string list option" where
  "autoAssignModels a hardware =
     (case assignedModels a hardware of
        Some l \<Rightarrow> Inr (Some l)
      | None \<Rightarrow> Inl (TypeError ''Cannot read properties of undefined (reading join)''))"

text \<open>
  Model selection, the same four lines in both routes:
  \<^verbatim>\<open>let selectedModel = requestedModel;\<close>
  \<^verbatim>\<open>if (!selectedModel) {\<close>
  \<^verbatim>\<open>  const availableModels = await redis.get('assigned_models') || ['gpt-3.5-turbo'];\<close>
  \<^verbatim>\<open>  selectedModel = availableModels[0]; }\<close>
  A missing model and the empty string are both falsy. The first element of an empty
  stored array is \<^verbatim>\<open>undefined\<close>, here \<open>None\<close>.
\<close>

definition falsy :: "string option \<Rightarrow> bool" where
  "falsy s = (case s of None \<Rightarrow> True | Some t \<Rightarrow> t = [])"

definition select_model :: "string option \<Rightarrow> string list option \<Rightarrow> string option" where
  "select_model requestedModel stored =
     (if falsy requestedModel then
        (let availableModels = (case stored of None \<Rightarrow> [''gpt-3.5-turbo''] | Some l \<Rightarrow> l) in
         case availableModels of [] \<Rightarrow> None | m # _ \<Rightarrow> Some m)
      else requestedModel)"


section \<open>Model registry: \<^verbatim>\<open>registerModels\<close> (ai-orchestrator, server.js)\<close>

text \<open>
  One entry of \<^verbatim>\<open>modelConfig.models.openai\<close> or \<^verbatim>\<open>modelConfig.models.local\<close>.
  Costs are decimal numbers of the configuration file, kept as exact rationals; a
  field the entry lacks is \<open>None\<close>.
\<close>

record model_config =
  cfg_provider :: "string option"
  cfg_endpoint :: "string option"
  cfg_model_path :: "string option"
  cfg_memory_requirement :: "string option"
  cfg_gpu_requirement :: "bool option"
  cfg_max_tokens :: "nat option"
  cfg_cost_per_token :: "rat option"
  cfg_performance_tier :: "string option"

record models_section =
  ms_openai :: "(string \<times> model_config) list option"
  ms_local :: "(string \<times> model_config) list option"

text \<open>The objects pushed on \<^verbatim>\<open>models\<close>.\<close>

record model_spec =
  sp_name :: string
  sp_provider :: "string option"
  sp_model_type :: string
  sp_configuration :: model_config
  sp_performance_tier :: "string option"
  sp_cost_per_token :: "rat option"
  sp_max_tokens :: "nat option"

definition openai_spec :: "string \<times> model_config \<Rightarrow> model_spec" where
  "openai_spec e =
     (case e of (name, config) \<Rightarrow>
        \<lparr>sp_name = name, sp_provider = cfg_provider config,
         sp_model_type = ''text-generation'', sp_configuration = config,
         sp_performance_tier = cfg_performance_tier config,
         sp_cost_per_token = cfg_cost_per_token config,
         sp_max_tokens = cfg_max_tokens config\<rparr>)"

text \<open>\<^verbatim>\<open>cost_per_token: 0\<close> and \<^verbatim>\<open>max_tokens: config.max_tokens || 2048\<close>.\<close>

definition local_spec :: "string \<times> model_config \<Rightarrow> model_spec" where
  "local_spec e =
     (case e of (name, config) \<Rightarrow>
        \<lparr>sp_name = name, sp_provider = cfg_provider config,
         sp_model_type = ''text-generation'', sp_configuration = config,
         sp_performance_tier = cfg_performance_tier config,
         sp_cost_per_token = Some 0,
         sp_max_tokens =
           (case cfg_max_tokens config of
              None \<Rightarrow> Some 2048
            | Some n \<Rightarrow> if n = 0 then Some 2048 else Some n)\<rparr>)"

definition collect_models :: "models_section \<Rightarrow> model_spec list" where
  "collect_models ms =
     (case ms_openai ms of None \<Rightarrow> [] | Some es \<Rightarrow> map openai_spec es) @
     (case ms_local ms of None \<Rightarrow> [] | Some es \<Rightarrow> map local_spec es)"

text \<open>
  The table \<^verbatim>\<open>ai_models\<close> as the repository creates it
  (api-gateway, utils/database.js, \<^verbatim>\<open>initializeSchema\<close>):
  \<^verbatim>\<open>id UUID PRIMARY KEY DEFAULT uuid_generate_v4(),\<close>
  \<^verbatim>\<open>name VARCHAR(255) NOT NULL,\<close>
  \<^verbatim>\<open>provider VARCHAR(100) NOT NULL,\<close>
  \<^verbatim>\<open>model_type VARCHAR(100) NOT NULL,\<close>
  \<^verbatim>\<open>configuration JSONB DEFAULT '{}',\<close>
  \<^verbatim>\<open>performance_tier VARCHAR(50),\<close>
  \<^verbatim>\<open>cost_per_token DECIMAL(10, 8),\<close>
  \<^verbatim>\<open>max_tokens INTEGER,\<close>
  \<^verbatim>\<open>is_active BOOLEAN DEFAULT TRUE,\<close>
  \<^verbatim>\<open>created_at TIMESTAMP WITH TIME ZONE DEFAULT NOW(),\<close>
  \<^verbatim>\<open>updated_at TIMESTAMP WITH TIME ZONE DEFAULT NOW()\<close>
  There is no table constraint and the repository creates no index on the table, so
  the primary key is its only unique index. \<open>col_unique\<close> marks a column that
  carries \<^verbatim>\<open>PRIMARY KEY\<close> or \<^verbatim>\<open>UNIQUE\<close>. The three columns declared
  \<^verbatim>\<open>NOT NULL\<close> besides the id are the ones whose field of a row is not optional.
\<close>

datatype sql_type = UUID | VARCHAR nat | JSONB | DECIMAL nat nat | INTEGER | BOOLEAN | TIMESTAMPTZ

record column =
  col_name :: string
  col_type :: sql_type
  col_unique :: bool

definition ai_models_table :: "column list" where
  "ai_models_table =
     [\<lparr>col_name = ''id'', col_type = UUID, col_unique = True\<rparr>,
      \<lparr>col_name = ''name'', col_type = VARCHAR 255, col_unique = False\<rparr>,
      \<lparr>col_name = ''provider'', col_type = VARCHAR 100, col_unique = False\<rparr>,
      \<lparr>col_name = ''model_type'', col_type = VARCHAR 100, col_unique = False\<rparr>,
      \<lparr>col_name = ''configuration'', col_type = JSONB, col_unique = False\<rparr>,
      \<lparr>col_name = ''performance_tier'', col_type = VARCHAR 50, col_unique = False\<rparr>,
      \<lparr>col_name = ''cost_per_token'', col_type = DECIMAL 10 8, col_unique = False\<rparr>,
      \<lparr>col_name = ''max_tokens'', col_type = INTEGER, col_unique = False\<rparr>,
      \<lparr>col_name = ''is_active'', col_type = BOOLEAN, col_unique = False\<rparr>,
      \<lparr>col_name = ''created_at'', col_type = TIMESTAMPTZ, col_unique = False\<rparr>,
      \<lparr>col_name = ''updated_at'', col_type = TIMESTAMPTZ, col_unique = False\<rparr>]"

text \<open>The rows of the table. Ids and timestamps are taken as numbers.\<close>

record ai_model =
  m_id :: nat
  m_name :: string
  m_provider :: string
  m_model_type :: string
  m_configuration :: model_config
  m_performance_tier :: "string option"
  m_cost_per_token :: "rat option"
  m_max_tokens :: "nat option"
  m_is_active :: bool
  m_created_at :: nat
  m_updated_at :: nat

text \<open>An error of the database, with its SQLSTATE code and its message.\<close>

datatype db_error = DbError string string

definition column_type :: "column list \<Rightarrow> string \<Rightarrow> sql_type option" where
  "column_type t name = map_of (map (\<lambda>c. (col_name c, col_type c)) t) name"

definition unique_indexes :: "column list \<Rightarrow> string list list" where
  "unique_indexes t = map (\<lambda>c. [col_name c]) (filter col_unique t)"

text \<open>
  \<^verbatim>\<open>ON CONFLICT (name)\<close>: when the statement is planned, the database looks for a
  unique index on exactly the named columns and raises when the table has none.
\<close>

definition infer_arbiter_index :: "column list \<Rightarrow> string list \<Rightarrow> db_error + string list" where
  "infer_arbiter_index t target =
     (if target \<in> set (unique_indexes t) then Inr target
      else Inl (DbError ''42P10''
        ''there is no unique or exclusion constraint matching the ON CONFLICT specification''))"

text \<open>
  Storing a value in a typed column. A string longer than a \<^verbatim>\<open>VARCHAR(n)\<close> column
  is refused unless the excess is blank, and then cut; a \<^verbatim>\<open>DECIMAL(p, s)\<close> column
  rounds to \<open>s\<close> decimals, half away from zero, and refuses a value that then needs
  more than \<open>p\<close> digits; an \<^verbatim>\<open>INTEGER\<close> parameter above \<open>2^31 - 1\<close> is refused when
  the parameters are bound, before the statement is planned.
\<close>

fun store_text :: "sql_type option \<Rightarrow> string \<Rightarrow> db_error + string" where
  "store_text (Some (VARCHAR n)) s =
     (if length s \<le> n then Inr s
      else if list_all (\<lambda>c. c = CHR '' '') (drop n s) then Inr (take n s)
      else Inl (DbError ''22001'' ''value too long for type character varying''))"
| "store_text _ s = Inr s"

definition round_half_away :: "rat \<Rightarrow> int" where
  "round_half_away q = (if 0 \<le> q then \<lfloor>q + 1 / 2\<rfloor> else - \<lfloor>- q + 1 / 2\<rfloor>)"

fun store_numeric :: "sql_type option \<Rightarrow> rat \<Rightarrow> db_error + rat" where
  "store_numeric (Some (DECIMAL p s)) q =
     (let r = round_half_away (q * 10 ^ s) in
      if \<bar>r\<bar> < 10 ^ p then Inr (of_int r / 10 ^ s)
      else Inl (DbError ''22003'' ''numeric field overflow''))"
| "store_numeric _ q = Inr q"

fun bind_integer :: "sql_type option \<Rightarrow> nat \<Rightarrow> db_error + nat" where
  "bind_integer (Some INTEGER) n =
     (if int n \<le> 2147483647 then Inr n
      else Inl (DbError ''22003'' ''value is out of range for type integer''))"
| "bind_integer _ n = Inr n"

fun on_option :: "('a \<Rightarrow> db_error + 'a) \<Rightarrow> 'a option \<Rightarrow> db_error + 'a option" where
  "on_option f None = Inr None"
| "on_option f (Some v) = (case f v of Inl e \<Rightarrow> Inl e | Inr v' \<Rightarrow> Inr (Some v'))"

text \<open>A null in a column declared \<^verbatim>\<open>NOT NULL\<close>.\<close>

definition not_null :: "string \<Rightarrow> 'a option \<Rightarrow> db_error + 'a" where
  "not_null name v =
     (case v of
        Some x \<Rightarrow> Inr x
      | None \<Rightarrow>
          Inl (DbError ''23502''
            (''null value in column '' @ name @ '' violates not-null constraint'')))"

definition then_do :: "db_error + 'a \<Rightarrow> ('a \<Rightarrow> db_error + 'b) \<Rightarrow> db_error + 'b" where
  "then_do r f = (case r of Inl e \<Rightarrow> Inl e | Inr v \<Rightarrow> f v)"

text \<open>
  The row the statement proposes:
  \<^verbatim>\<open>INSERT INTO ai_models (name, provider, model_type, configuration, performance_tier,\<close>
  \<^verbatim>\<open>  cost_per_token, max_tokens) VALUES ($1, $2, $3, $4, $5, $6, $7)\<close>
  with the column defaults for the id, \<^verbatim>\<open>is_active\<close> and the two timestamps. The
  configuration goes in as \<^verbatim>\<open>JSON.stringify(model.configuration)\<close> and is read back
  as the same object.
\<close>

definition proposed_row :: "column list \<Rightarrow> nat \<Rightarrow> nat \<Rightarrow> model_spec \<Rightarrow> db_error + ai_model" where
  "proposed_row t now fresh sp =
     then_do (store_text (column_type t ''name'') (sp_name sp)) (\<lambda>name.
     then_do (on_option (store_text (column_type t ''provider'')) (sp_provider sp)) (\<lambda>provider.
     then_do (store_text (column_type t ''model_type'') (sp_model_type sp)) (\<lambda>model_type.
     then_do (on_option (store_text (column_type t ''performance_tier'')) (sp_performance_tier sp)) (\<lambda>tier.
     then_do (on_option (store_numeric (column_type t ''cost_per_token'')) (sp_cost_per_token sp)) (\<lambda>cost.
     then_do (not_null ''provider'' provider) (\<lambda>provider'.
       Inr \<lparr>m_id = fresh, m_name = name, m_provider = provider', m_model_type = model_type,
            m_configuration = sp_configuration sp, m_performance_tier = tier,
            m_cost_per_token = cost, m_max_tokens = sp_max_tokens sp,
            m_is_active = True, m_created_at = now, m_updated_at = now\<rparr>))))))"

text \<open>
  \<^verbatim>\<open>ON CONFLICT (name) DO UPDATE SET configuration = EXCLUDED.configuration,\<close>
  \<^verbatim>\<open>  performance_tier = EXCLUDED.performance_tier, cost_per_token = EXCLUDED.cost_per_token,\<close>
  \<^verbatim>\<open>  max_tokens = EXCLUDED.max_tokens, updated_at = NOW()\<close>
  The proposed row is inserted when no row has its name; otherwise the row with that
  name takes the four columns of the proposed row and the time of the statement,
  and keeps every other column.
\<close>

fun upsert_model :: "ai_model \<Rightarrow> ai_model list \<Rightarrow> ai_model list" where
  "upsert_model excluded [] = [excluded]"
| "upsert_model excluded (r # rs) =
     (if m_name r = m_name excluded then
        r\<lparr>m_configuration := m_configuration excluded,
          m_performance_tier := m_performance_tier excluded,
          m_cost_per_token := m_cost_per_token excluded,
          m_max_tokens := m_max_tokens excluded,
          m_updated_at := m_updated_at excluded\<rparr> # rs
      else r # upsert_model excluded rs)"

text \<open>
  One run of the statement on a table with the columns \<open>t\<close>: the parameters are
  bound, the statement is planned, and then it is executed.
\<close>

definition insert_on_conflict ::
  "column list \<Rightarrow> nat \<Rightarrow> nat \<Rightarrow> model_spec \<Rightarrow> ai_model list \<Rightarrow> db_error + ai_model list" where
  "insert_on_conflict t now fresh sp rows =
     then_do (on_option (bind_integer (column_type t ''max_tokens'')) (sp_max_tokens sp)) (\<lambda>max_tokens.
     then_do (infer_arbiter_index t [''name'']) (\<lambda>arbiter.
     then_do (proposed_row t now fresh sp) (\<lambda>excluded.
       Inr (upsert_model excluded rows))))"

text \<open>A fresh id is one no row of the table has.\<close>

definition fresh_id :: "ai_model list \<Rightarrow> nat" where
  "fresh_id rows = Suc (fold max (map m_id rows) 0)"

text \<open>
  The loop \<^verbatim>\<open>for (const model of models) { await database.query(...) }\<close> of
  \<^verbatim>\<open>registerModels\<close>. Every statement is a transaction of its own, with its own
  \<^verbatim>\<open>NOW()\<close>: \<open>clock i\<close> is the time of the \<open>i\<close>-th statement. An error of the
  database leaves the loop and the function; the result is the table as the run
  leaves it and the error raised, if any.
\<close>

fun upsert_all ::
  "column list \<Rightarrow> (nat \<Rightarrow> nat) \<Rightarrow> nat \<Rightarrow> model_spec list \<Rightarrow> ai_model list \<Rightarrow>
     ai_model list \<times> db_error option" where
  "upsert_all t clock i [] rows = (rows, None)"
| "upsert_all t clock i (sp # sps) rows =
     (case insert_on_conflict t (clock i) (fresh_id rows) sp rows of
        Inl e \<Rightarrow> (rows, Some e)
      | Inr rows' \<Rightarrow> upsert_all t clock (Suc i) sps rows')"

definition registerModels ::
  "(nat \<Rightarrow> nat) \<Rightarrow> models_section \<Rightarrow> ai_model list \<Rightarrow> ai_model list \<times> db_error option" where
  "registerModels clock ms rows = upsert_all ai_models_table clock 0 (collect_models ms) rows"

text \<open>\<^verbatim>\<open>SELECT * FROM ai_models WHERE name = $1\<close>, and the routes' variant with
  \<^verbatim>\<open>AND is_active = true\<close>.\<close>

definition lookup_model :: "ai_model list \<Rightarrow> string \<Rightarrow> ai_model list" where
  "lookup_model rows name = filter (\<lambda>r. m_name r = name) rows"

definition lookup_active_model :: "ai_model list \<Rightarrow> string option \<Rightarrow> ai_model list" where
  "lookup_active_model rows name =
     (case name of
        None \<Rightarrow> []
      | Some n \<Rightarrow> filter (\<lambda>r. m_name r = n \<and> m_is_active r) rows)"


section \<open>The hosted provider: \<^verbatim>\<open>OpenAIProvider\<close>\<close>

text \<open>
  \<^verbatim>\<open>calculateCost(model, tokens)\<close>: the rate is \<^verbatim>\<open>pricing[model] ||\<close>
  \<^verbatim>\<open>pricing['gpt-3.5-turbo']\<close>, the cost \<^verbatim>\<open>tokens * costPerToken\<close>. The table gives
  each rate as the pair \<open>(a, k)\<close> of its decimal literal \<open>a / 10 ^ k\<close>. A model name that
  is the name of an inherited member yields a function as rate, and the product is
  \<open>NaN\<close>.
\<close>

definition pricing :: "(string \<times> nat \<times> nat) list" where
  "pricing =
     [(''gpt-4'', 3, 5), (''gpt-4-turbo'', 1, 5),
      (''gpt-3.5-turbo'', 2, 6), (''gpt-3.5-turbo-16k'', 4, 6)]"

definition calculateCost :: "string \<Rightarrow> nat \<Rightarrow> js_number" where
  "calculateCost model tokens =
     (case js_get pricing model of
        Own (a, k) \<Rightarrow> js_times (number_of_nat tokens) (decimal a k)
      | Inherited \<Rightarrow> NaN
      | Undefined \<Rightarrow> js_times (number_of_nat tokens) (decimal 2 6))"

text \<open>\<^verbatim>\<open>estimateTokens(text)\<close>: \<^verbatim>\<open>Math.ceil(text.length / 4)\<close>.\<close>

definition estimateTokens :: "string \<Rightarrow> nat" where
  "estimateTokens content = (length content + 3) div 4"


text \<open>
  Request options, an object of the JSON body. A key may be missing, carry
  \<^verbatim>\<open>null\<close>, or carry a value. \<^verbatim>\<open>temperature\<close> and further provider-specific keys
  are handed through unchanged and are left out. The provider is called with
  \<^verbatim>\<open>{ model: selectedModel, ...options }\<close>: a \<^verbatim>\<open>model\<close> key among the options
  wins, also when it carries \<^verbatim>\<open>null\<close>.
\<close>

datatype 'a js_field = Absent | Null | Given 'a

record gen_options =
  opt_model :: "string js_field"
  opt_maxTokens :: "nat js_field"

definition call_options :: "string option \<Rightarrow> gen_options \<Rightarrow> gen_options" where
  "call_options selectedModel options =
     options\<lparr>opt_model :=
       (case opt_model options of
          Absent \<Rightarrow> (case selectedModel of None \<Rightarrow> Absent | Some m \<Rightarrow> Given m)
        | Null \<Rightarrow> Null
        | Given m \<Rightarrow> Given m)\<rparr>"

record usage =
  prompt_tokens :: "nat option"
  completion_tokens :: "nat option"
  total_tokens :: nat

record gen_result =
  r_provider :: string
  r_model :: "string option"
  r_response :: string
  r_usage :: usage
  r_cost :: js_number

record stream_chunk =
  c_chunk :: string
  c_fullResponse :: string
  c_tokenCount :: nat

text \<open>
  What the OpenAI client does for one call is an input of the model. A completion
  either raises or returns the text and the usage the API reports. A stream either
  raises when it is created, or yields a sequence of deltas (a delta may carry no
  content) and then ends or raises. The client is called with the model and the token
  limit the provider destructures from its options,
  \<^verbatim>\<open>const { model = 'gpt-3.5-turbo', maxTokens = 1000 } = options\<close>: a default
  replaces a missing key, not a \<^verbatim>\<open>null\<close>, which is \<open>None\<close> here.
\<close>

record completion =
  cp_content :: string
  cp_usage :: usage

record openai_client =
  create_completion :: "string \<Rightarrow> string option \<Rightarrow> nat option \<Rightarrow> js_error + completion"
  create_stream ::
    "string \<Rightarrow> string option \<Rightarrow> nat option \<Rightarrow> js_error + (string option list \<times> js_error option)"

definition model_or_default :: "gen_options \<Rightarrow> string option" where
  "model_or_default options =
     (case opt_model options of
        Absent \<Rightarrow> Some ''gpt-3.5-turbo''
      | Null \<Rightarrow> None
      | Given m \<Rightarrow> Some m)"

definition maxTokens_or_default :: "gen_options \<Rightarrow> nat option" where
  "maxTokens_or_default options =
     (case opt_maxTokens options of
        Absent \<Rightarrow> Some 1000
      | Null \<Rightarrow> None
      | Given n \<Rightarrow> Some n)"

definition openai_generateText ::
  "openai_client \<Rightarrow> string \<Rightarrow> gen_options \<Rightarrow> js_error + gen_result" where
  "openai_generateText client prompt options =
     (let model = model_or_default options in
      case create_completion client prompt model (maxTokens_or_default options) of
        Inl e \<Rightarrow> Inl e
      | Inr response \<Rightarrow>
          Inr \<lparr>r_provider = ''openai'', r_model = model, r_response = cp_content response,
               r_usage = cp_usage response,
               r_cost = calculateCost (js_key model) (total_tokens (cp_usage response))\<rparr>)"

text \<open>
  The loop \<^verbatim>\<open>for await (const chunk of stream)\<close> with its two accumulators. A delta
  without content, or with empty content, is skipped; every other one extends the
  response, adds its estimate to the running count and is handed to \<^verbatim>\<open>onChunk\<close>.
  The result lists the \<^verbatim>\<open>onChunk\<close> calls in order.
\<close>

fun stream_loop ::
  "string option list \<Rightarrow> string \<Rightarrow> nat \<Rightarrow> stream_chunk list \<times> string \<times> nat" where
  "stream_loop [] fullResponse tokenCount = ([], fullResponse, tokenCount)"
| "stream_loop (d # ds) fullResponse tokenCount =
     (let content = (case d of None \<Rightarrow> [] | Some c \<Rightarrow> c) in
      if content \<noteq> [] then
        (let fullResponse' = fullResponse @ content;
             tokenCount' = tokenCount + estimateTokens content;
             rest = stream_loop ds fullResponse' tokenCount'
         in (\<lparr>c_chunk = content, c_fullResponse = fullResponse',
               c_tokenCount = tokenCount'\<rparr> # fst rest, snd rest))
      else stream_loop ds fullResponse tokenCount)"

definition openai_generateTextStream ::
  "openai_client \<Rightarrow> string \<Rightarrow> gen_options \<Rightarrow> stream_chunk list \<times> (js_error + gen_result)" where
  "openai_generateTextStream client prompt options =
     (let model = model_or_default options in
      case create_stream client prompt model (maxTokens_or_default options) of
        Inl e \<Rightarrow> ([], Inl e)
      | Inr (deltas, failure) \<Rightarrow>
          (let run = stream_loop deltas [] 0;
               fullResponse = fst (snd run);
               tokenCount = snd (snd run)
           in (fst run,
               case failure of
                 Some e \<Rightarrow> Inl e
               | None \<Rightarrow>
                   Inr \<lparr>r_provider = ''openai'', r_model = model, r_response = fullResponse,
                        r_usage = \<lparr>prompt_tokens = None, completion_tokens = None,
                                    total_tokens = tokenCount\<rparr>,
                        r_cost = calculateCost (js_key model) tokenCount\<rparr>)))"

text \<open>
  The capability surface the routes use. A provider may lack the streaming
  capability. A streaming call yields the \<^verbatim>\<open>onChunk\<close> calls it made, in order, and
  then its result or the error it raised.
\<close>

record provider_api =
  generateText :: "string \<Rightarrow> gen_options \<Rightarrow> js_error + gen_result"
  generateTextStream ::
    "(string \<Rightarrow> gen_options \<Rightarrow> stream_chunk list \<times> (js_error + gen_result)) option"

definition OpenAIProvider :: "openai_client \<Rightarrow> provider_api" where
  "OpenAIProvider client =
     \<lparr>generateText = openai_generateText client,
      generateTextStream = Some (openai_generateTextStream client)\<rparr>"


section \<open>Job pipeline: the routes \<^verbatim>\<open>/process\<close> and \<^verbatim>\<open>/stream\<close> (ai-orchestrator, routes/ai.js)\<close>

datatype job_status = pending | processing | streaming | completed | failed

record job_metadata =
  md_requestedModel :: "string option"
  md_options :: gen_options
  md_streaming :: bool

record ai_job =
  j_id :: string
  j_tenant_id :: "string option"
  j_user_id :: "string option"
  j_model_id :: "nat option"
  j_prompt :: string
  j_response :: "string option"
  j_status :: job_status
  j_error_message :: "string option"
  j_tokens_used :: "nat option"
  j_cost :: "js_number option"
  j_processing_time :: "int option"
  j_metadata :: job_metadata
  j_created_at :: nat
  j_completed_at :: "nat option"

datatype job_update =
    JobCompleted string string usage int
  | JobFailed string string

text \<open>
  The state the routes read and write: the two tables, the Redis key
  \<^verbatim>\<open>assigned_models\<close>, and the messages published on channel
  \<^verbatim>\<open>ai_job_updates\<close>, oldest first. Database and Redis calls are taken to succeed;
  \<^verbatim>\<open>redis.publish\<close> and \<^verbatim>\<open>redis.get\<close> catch their own failures.
\<close>

record world =
  ai_jobs :: "ai_job list"
  ai_models :: "ai_model list"
  assigned_models :: "string list option"
  ai_job_updates :: "job_update list"

text \<open>
  The request: the JSON body and the two identity headers. The body is typed, so the
  validators \<^verbatim>\<open>body('model').optional().isString()\<close> and
  \<^verbatim>\<open>body('options').optional().isObject()\<close> hold; a prompt is a string.
\<close>

record request =
  rq_prompt :: string
  rq_model :: "string option"
  rq_options :: gen_options
  rq_tenant_id :: "string option"
  rq_user_id :: "string option"

text \<open>
  What a handler run reads from outside the state: the orchestrator, the generated
  uuid, the two readings of \<^verbatim>\<open>Date.now()\<close> (before the provider call and after it),
  and the database clock \<^verbatim>\<open>NOW()\<close>. \<^verbatim>\<open>orchestrator.getProvider\<close> is a lookup in
  the providers registered at startup, by the provider name of the model's row
  (\<^verbatim>\<open>openai\<close>, \<^verbatim>\<open>huggingface\<close>, \<^verbatim>\<open>local\<close>); \<open>e_providers\<close> gives what the
  routes can do with the value returned. A value that is truthy and no provider (the
  lookup \<^verbatim>\<open>this.providers[providerName]\<close> returns an inherited member for a name
  such as \<^verbatim>\<open>constructor\<close>) is a provider without the streaming capability whose
  \<^verbatim>\<open>generateText\<close> raises a \<^verbatim>\<open>TypeError\<close>.
\<close>

record env =
  e_initialized :: bool
  e_providers :: "string \<Rightarrow> provider_api option"
  e_uuid :: string
  e_start :: int
  e_end :: int
  e_now :: nat

text \<open>\<^verbatim>\<open>body('prompt').isLength({ min: 1, max: 10000 })\<close>.\<close>

definition valid_prompt :: "string \<Rightarrow> bool" where
  "valid_prompt p = (1 \<le> length p \<and> length p \<le> 10000)"

text \<open>\<^verbatim>\<open>req.headers[...] || null\<close>, and a possibly undefined value inside a template string.\<close>

definition or_null :: "string option \<Rightarrow> string option" where
  "or_null h = (if falsy h then None else h)"

definition js_str :: "string option \<Rightarrow> string" where
  "js_str v = (case v of None \<Rightarrow> ''undefined'' | Some t \<Rightarrow> t)"

definition insert_job :: "ai_job \<Rightarrow> world \<Rightarrow> world" where
  "insert_job j w = w\<lparr>ai_jobs := ai_jobs w @ [j]\<rparr>"

text \<open>\<^verbatim>\<open>UPDATE ai_jobs SET ... WHERE id = $n\<close>.\<close>

definition update_job :: "string \<Rightarrow> (ai_job \<Rightarrow> ai_job) \<Rightarrow> world \<Rightarrow> world" where
  "update_job jobId f w = w\<lparr>ai_jobs := map (\<lambda>j. if j_id j = jobId then f j else j) (ai_jobs w)\<rparr>"

definition publish :: "job_update \<Rightarrow> world \<Rightarrow> world" where
  "publish u w = w\<lparr>ai_job_updates := ai_job_updates w @ [u]\<rparr>"

definition new_job ::
  "env \<Rightarrow> request \<Rightarrow> job_status \<Rightarrow> nat option \<Rightarrow> bool \<Rightarrow> ai_job" where
  "new_job env req st model_id is_stream =
     \<lparr>j_id = e_uuid env, j_tenant_id = or_null (rq_tenant_id req),
      j_user_id = or_null (rq_user_id req), j_model_id = model_id,
      j_prompt = rq_prompt req, j_response = None, j_status = st,
      j_error_message = None, j_tokens_used = None, j_cost = None,
      j_processing_time = None,
      j_metadata = \<lparr>md_requestedModel = rq_model req, md_options = rq_options req,
                     md_streaming = is_stream\<rparr>,
      j_created_at = e_now env, j_completed_at = None\<rparr>"

text \<open>The two final updates, shared by both routes word for word.\<close>

definition complete_job :: "env \<Rightarrow> gen_result \<Rightarrow> int \<Rightarrow> world \<Rightarrow> world" where
  "complete_job env result processingTime w =
     update_job (e_uuid env)
       (\<lambda>j. j\<lparr>j_status := completed, j_response := Some (r_response result),
               j_tokens_used := Some (total_tokens (r_usage result)),
               j_cost := Some (r_cost result),
               j_processing_time := Some processingTime,
               j_completed_at := Some (e_now env)\<rparr>) w"

definition fail_job :: "env \<Rightarrow> js_error \<Rightarrow> int \<Rightarrow> world \<Rightarrow> world" where
  "fail_job env err processingTime w =
     update_job (e_uuid env)
       (\<lambda>j. j\<lparr>j_status := failed, j_error_message := Some (message err),
               j_processing_time := Some processingTime,
               j_completed_at := Some (e_now env)\<rparr>) w"

definition reject_job :: "env \<Rightarrow> string \<Rightarrow> world \<Rightarrow> world" where
  "reject_job env msg w =
     update_job (e_uuid env) (\<lambda>j. j\<lparr>j_status := failed, j_error_message := Some msg\<rparr>) w"

text \<open>
  Reading a variable in a \<^verbatim>\<open>catch\<close> block. Declarations made with \<^verbatim>\<open>const\<close> inside
  a \<^verbatim>\<open>try\<close> block are local to that block; its \<^verbatim>\<open>catch\<close> block sees the
  declarations of the enclosing blocks only. In \<^verbatim>\<open>/process\<close> the handler's outer
  \<^verbatim>\<open>try\<close> block declares ten names and the inner \<^verbatim>\<open>try\<close> block declares
  \<^verbatim>\<open>startTime\<close>, \<^verbatim>\<open>result\<close> and \<^verbatim>\<open>processingTime\<close>. In \<^verbatim>\<open>/stream\<close>,
  \<^verbatim>\<open>startTime\<close> is declared before the inner \<^verbatim>\<open>try\<close>, in the outer block. Reading
  a name no enclosing scope declares raises a \<^verbatim>\<open>ReferenceError\<close>; the module
  declares no \<^verbatim>\<open>startTime\<close> and the runtime has no global of that name.
\<close>

definition module_scope :: "string list" where
  "module_scope = [''express'', ''body'', ''validationResult'', ''uuidv4'', ''logger'',
                   ''database'', ''redis'', ''router'', ''require'', ''module'', ''exports'',
                   ''__filename'', ''__dirname'']"

definition process_catch_scope :: "string list" where
  "process_catch_scope =
     [''error'', ''processingTime''] @
     [''errors'', ''prompt'', ''requestedModel'', ''options'', ''orchestrator'', ''jobId'',
      ''selectedModel'', ''modelResult'', ''modelInfo'', ''provider''] @
     [''req'', ''res''] @ module_scope"

definition stream_catch_scope :: "string list" where
  "stream_catch_scope =
     [''error'', ''processingTime''] @
     [''prompt'', ''requestedModel'', ''options'', ''orchestrator'', ''jobId'',
      ''selectedModel'', ''modelResult'', ''modelInfo'', ''provider'', ''startTime''] @
     [''req'', ''res''] @ module_scope"

definition read_var :: "string list \<Rightarrow> string \<Rightarrow> 'a \<Rightarrow> js_error + 'a" where
  "read_var scope name v =
     (if name \<in> set scope then Inr v
      else Inl (ReferenceError (name @ '' is not defined'')))"


record process_data =
  pd_jobId :: string
  pd_response :: string
  pd_model :: "string option"
  pd_provider :: string
  pd_usage :: usage
  pd_cost :: js_number
  pd_processingTime :: int

datatype reply =
    ValidationFailed "string list"
  | ErrorReply nat string string
  | SuccessReply process_data

text \<open>
  \<^verbatim>\<open>router.post('/process', ...)\<close>. \<open>ValidationFailed\<close> is the 400 reply with the
  list of rejected fields; \<open>ErrorReply\<close> carries status, \<^verbatim>\<open>error\<close> and
  \<^verbatim>\<open>message\<close>. The inner \<^verbatim>\<open>catch\<close> block starts with
  \<^verbatim>\<open>const processingTime = Date.now() - startTime\<close>; an error raised there leaves
  the block and reaches the outer \<^verbatim>\<open>catch\<close>, which answers 500 with that error's
  message.
\<close>

definition process_route :: "env \<Rightarrow> request \<Rightarrow> world \<Rightarrow> world \<times> reply" where
  "process_route env req w =
     (if \<not> valid_prompt (rq_prompt req) then (w, ValidationFailed [''prompt''])
      else if \<not> e_initialized env then
        (w, ErrorReply 503 ''Service unavailable'' ''AI Orchestrator is not ready'')
      else
        let w1 = insert_job (new_job env req pending None False) w;
            selectedModel = select_model (rq_model req) (assigned_models w1)
        in
        case lookup_active_model (ai_models w1) selectedModel of
          [] \<Rightarrow>
            (reject_job env (''Model '' @ js_str selectedModel @ '' not found or inactive'') w1,
             ErrorReply 400 ''Model not available''
               (''Model '' @ js_str selectedModel @ '' is not available''))
        | modelInfo # _ \<Rightarrow>
            (case e_providers env (m_provider modelInfo) of
               None \<Rightarrow>
                 (reject_job env (''Provider '' @ m_provider modelInfo @ '' not available'') w1,
                  ErrorReply 503 ''Provider unavailable''
                    (''Provider '' @ m_provider modelInfo @ '' is not available''))
             | Some provider \<Rightarrow>
                 let w2 = update_job (e_uuid env)
                            (\<lambda>j. j\<lparr>j_status := processing, j_model_id := Some (m_id modelInfo)\<rparr>) w1
                 in
                 case generateText provider (rq_prompt req)
                        (call_options selectedModel (rq_options req)) of
                   Inr result \<Rightarrow>
                     let processingTime = e_end env - e_start env;
                         w3 = complete_job env result processingTime w2;
                         w4 = publish (JobCompleted (e_uuid env) (r_response result)
                                        (r_usage result) processingTime) w3
                     in (w4, SuccessReply
                               \<lparr>pd_jobId = e_uuid env, pd_response = r_response result,
                                pd_model = selectedModel, pd_provider = r_provider result,
                                pd_usage = r_usage result, pd_cost = r_cost result,
                                pd_processingTime = processingTime\<rparr>)
                 | Inl error \<Rightarrow>
                     (case read_var process_catch_scope ''startTime'' (e_start env) of
                        Inl raised \<Rightarrow>
                          (w2, ErrorReply 500 ''Processing failed'' (message raised))
                      | Inr startTime \<Rightarrow>
                          let processingTime = e_end env - startTime;
                              w3 = fail_job env error processingTime w2;
                              w4 = publish (JobFailed (e_uuid env) (message error)) w3
                          in (w4, ErrorReply 500 ''Processing failed'' (message error)))))"

text \<open>
  The data lines written to the event stream of \<^verbatim>\<open>/stream\<close>:
  \<^verbatim>\<open>{ error }\<close>, \<^verbatim>\<open>{ jobId, status: 'started' }\<close>,
  \<^verbatim>\<open>{ jobId, type: 'chunk', content, tokenCount }\<close>,
  \<^verbatim>\<open>{ jobId, type: 'complete', usage, cost, processingTime }\<close> and
  \<^verbatim>\<open>{ jobId, type: 'error', error }\<close>.
\<close>

datatype sse_event =
    SseError string
  | SseStarted string
  | SseChunk string string nat
  | SseComplete string usage js_number int
  | SseJobError string string

datatype stream_reply =
    StreamJson nat string string
  | StreamEvents "sse_event list"

definition chunk_event :: "string \<Rightarrow> stream_chunk \<Rightarrow> sse_event" where
  "chunk_event jobId c = SseChunk jobId (c_chunk c) (c_tokenCount c)"

definition streaming_capability ::
  "provider_api option \<Rightarrow> (string \<Rightarrow> gen_options \<Rightarrow> stream_chunk list \<times> (js_error + gen_result)) option" where
  "streaming_capability p = (case p of None \<Rightarrow> None | Some q \<Rightarrow> generateTextStream q)"

text \<open>
  \<^verbatim>\<open>router.post('/stream', ...)\<close>. The handler declares the same validators as
  \<^verbatim>\<open>/process\<close> but never reads \<^verbatim>\<open>validationResult(req)\<close>, so its first check is
  the one on the orchestrator. \<open>StreamEvents\<close> is the event stream, in the order
  written, closed by \<^verbatim>\<open>res.end()\<close>.
\<close>

definition stream_route :: "env \<Rightarrow> request \<Rightarrow> world \<Rightarrow> world \<times> stream_reply" where
  "stream_route env req w =
     (if \<not> e_initialized env then
        (w, StreamJson 503 ''Service unavailable'' ''AI Orchestrator is not ready'')
      else
        let selectedModel = select_model (rq_model req) (assigned_models w) in
        case lookup_active_model (ai_models w) selectedModel of
          [] \<Rightarrow> (w, StreamEvents [SseError ''Model not available''])
        | modelInfo # _ \<Rightarrow>
            (case streaming_capability (e_providers env (m_provider modelInfo)) of
               None \<Rightarrow>
                 (w, StreamEvents [SseError ''Streaming not supported for this provider''])
             | Some generate \<Rightarrow>
                 let w1 = insert_job (new_job env req streaming (Some (m_id modelInfo)) True) w;
                     run = generate (rq_prompt req) (call_options selectedModel (rq_options req));
                     written = SseStarted (e_uuid env) # map (chunk_event (e_uuid env)) (fst run)
                 in
                 case snd run of
                   Inr result \<Rightarrow>
                     let processingTime = e_end env - e_start env;
                         w2 = complete_job env result processingTime w1
                     in (w2, StreamEvents
                               (written @ [SseComplete (e_uuid env) (r_usage result)
                                             (r_cost result) processingTime]))
                 | Inl error \<Rightarrow>
                     (case read_var stream_catch_scope ''startTime'' (e_start env) of
                        Inl raised \<Rightarrow>
                          (w1, StreamEvents (written @ [SseError ''Streaming failed'']))
                      | Inr startTime \<Rightarrow>
                          let processingTime = e_end env - startTime;
                              w2 = fail_job env error processingTime w1
                          in (w2, StreamEvents
                                    (written @ [SseJobError (e_uuid env) (message error)])))))"

text \<open>Reading the state after a handler has returned.\<close>

definition find_job :: "world \<Rightarrow> string \<Rightarrow> ai_job list" where
  "find_job w jobId = filter (\<lambda>j. j_id j = jobId) (ai_jobs w)"





fun running_estimates :: "nat \<Rightarrow> string list \<Rightarrow> nat list" where
  "running_estimates acc [] = []"
| "running_estimates acc (c # cs) =
     (acc + estimateTokens c) # running_estimates (acc + estimateTokens c) cs"

fun is_terminal_event :: "string \<Rightarrow> sse_event \<Rightarrow> bool" where
  "is_terminal_event jobId (SseComplete j u c t) = (j = jobId)"
| "is_terminal_event jobId (SseJobError j m) = (j = jobId)"
| "is_terminal_event jobId (SseError m) = False"
| "is_terminal_event jobId (SseStarted j) = False"
| "is_terminal_event jobId (SseChunk j c n) = False"

fun is_chunk_event :: "sse_event \<Rightarrow> bool" where
  "is_chunk_event (SseChunk j c n) = True"
| "is_chunk_event (SseComplete j u c t) = False"
| "is_chunk_event (SseJobError j m) = False"
| "is_chunk_event (SseError m) = False"
| "is_chunk_event (SseStarted j) = False"



section \<open>Example inputs\<close>

definition gpt4_config :: model_config where
  "gpt4_config =
     \<lparr>cfg_provider = Some ''openai'', cfg_endpoint = Some ''https://api.openai.com/v1'',
      cfg_model_path = None, cfg_memory_requirement = None, cfg_gpu_requirement = None,
      cfg_max_tokens = Some 4096, cfg_cost_per_token = Some (3 / 100000),
      cfg_performance_tier = Some ''high''\<rparr>"

definition gpt4_row :: ai_model where
  "gpt4_row =
     \<lparr>m_id = 1, m_name = ''gpt-4'', m_provider = ''openai'',
      m_model_type = ''text-generation'', m_configuration = gpt4_config,
      m_performance_tier = Some ''high'', m_cost_per_token = Some (3 / 100000),
      m_max_tokens = Some 4096, m_is_active = True, m_created_at = 0, m_updated_at = 0\<rparr>"

definition registry_world :: world where
  "registry_world =
     \<lparr>ai_jobs = [], ai_models = [gpt4_row], assigned_models = Some [''gpt-4''],
      ai_job_updates = []\<rparr>"

definition failing_client :: openai_client where
  "failing_client =
     \<lparr>create_completion = (\<lambda>prompt model n. Inl (Error ''Request timed out.'')),
      create_stream = (\<lambda>prompt model n. Inl (Error ''Request timed out.''))\<rparr>"

definition answering_client :: openai_client where
  "answering_client =
     \<lparr>create_completion =
        (\<lambda>prompt model n.
           Inr \<lparr>cp_content = ''Hello world'',
                cp_usage = \<lparr>prompt_tokens = Some 3, completion_tokens = Some 2,
                            total_tokens = 5\<rparr>\<rparr>),
      create_stream = (\<lambda>prompt model n. Inr ([Some ''Hello'', None, Some '' world''], None))\<rparr>"

definition env_with :: "openai_client \<Rightarrow> env" where
  "env_with client =
     \<lparr>e_initialized = True,
      e_providers = (\<lambda>name. if name = ''openai'' then Some (OpenAIProvider client) else None),
      e_uuid = ''job-1'', e_start = 1000, e_end = 1250, e_now = 77\<rparr>"

definition ask :: "string \<Rightarrow> string option \<Rightarrow> request" where
  "ask prompt model =
     \<lparr>rq_prompt = prompt, rq_model = model,
      rq_options = \<lparr>opt_model = Absent, opt_maxTokens = Absent\<rparr>,
      rq_tenant_id = Some ''tenant-1'', rq_user_id = None\<rparr>"


definition gpu_host :: "nat \<Rightarrow> hardware_info" where
  "gpu_host gb =
     \<lparr>hw_cpu_cores = 8, hw_memory_total = 32,
      hw_gpu = Some \<lparr>gpu_vendor = ''NVIDIA'', gpu_model = ''RTX'', gpu_memory = gb\<rparr>\<rparr>"

definition cpu_host :: hardware_info where
  "cpu_host = \<lparr>hw_cpu_cores = 8, hw_memory_total = 32, hw_gpu = None\<rparr>"

definition default_assignment :: auto_assignment where
  "default_assignment =
     \<lparr>aa_cpu_only = Some [''gpt-3.5-turbo''],
      aa_gpu_4gb = Some [''llama2-7b'', ''gpt-3.5-turbo''],
      aa_gpu_8gb = Some [''llama2-7b'', ''llama2-13b'', ''gpt-4''],
      aa_gpu_16gb = Some [''llama2-7b'', ''llama2-13b'', ''gpt-4'']\<rparr>"


text \<open>The models of \<^verbatim>\<open>getDefaultModelConfig()\<close>.\<close>

definition gpt35_config :: model_config where
  "gpt35_config =
     gpt4_config\<lparr>cfg_cost_per_token := Some (2 / 1000000),
                  cfg_performance_tier := Some ''medium''\<rparr>"

definition llama2_7b_config :: model_config where
  "llama2_7b_config =
     \<lparr>cfg_provider = Some ''local'', cfg_endpoint = None,
      cfg_model_path = Some ''/models/llama2-7b'', cfg_memory_requirement = Some ''8GB'',
      cfg_gpu_requirement = Some True, cfg_max_tokens = None, cfg_cost_per_token = None,
      cfg_performance_tier = Some ''medium''\<rparr>"

definition llama2_13b_config :: model_config where
  "llama2_13b_config =
     llama2_7b_config\<lparr>cfg_model_path := Some ''/models/llama2-13b'',
                       cfg_memory_requirement := Some ''16GB'',
                       cfg_performance_tier := Some ''high''\<rparr>"

definition default_models :: models_section where
  "default_models =
     \<lparr>ms_openai = Some [(''gpt-4'', gpt4_config), (''gpt-3.5-turbo'', gpt35_config)],
      ms_local = Some [(''llama2-7b'', llama2_7b_config), (''llama2-13b'', llama2_13b_config)]\<rparr>"

text \<open>The table with a unique index on \<^verbatim>\<open>name\<close>, which the repository does not create.\<close>

definition with_unique_name :: "column list \<Rightarrow> column list" where
  "with_unique_name t = map (\<lambda>c. if col_name c = ''name'' then c\<lparr>col_unique := True\<rparr> else c) t"

text \<open>A registry that holds the default model, and a configuration whose list for hosts
  without a GPU is empty.\<close>

definition gpt35_row :: ai_model where
  "gpt35_row =
     \<lparr>m_id = 2, m_name = ''gpt-3.5-turbo'', m_provider = ''openai'',
      m_model_type = ''text-generation'', m_configuration = gpt35_config,
      m_performance_tier = Some ''medium'', m_cost_per_token = Some (2 / 1000000),
      m_max_tokens = Some 4096, m_is_active = True, m_created_at = 0, m_updated_at = 0\<rparr>"

definition empty_cpu_assignment :: auto_assignment where
  "empty_cpu_assignment = default_assignment\<lparr>aa_cpu_only := Some []\<rparr>"

definition stored_world :: "string list option \<Rightarrow> world" where
  "stored_world stored =
     \<lparr>ai_jobs = [], ai_models = [gpt4_row, gpt35_row], assigned_models = stored,
      ai_job_updates = []\<rparr>"

section \<open>Quota guard: properties\<close>

lemma js_get_limits_known:
  "js_get limits ''free'' = Own free_limits"
  "js_get limits ''basic'' = Own basic_limits"
  "js_get limits ''pro'' = Own pro_limits"
  "js_get limits ''enterprise'' = Own enterprise_limits"
  by (simp_all add: js_get_def limits_def)

lemma limit_of_free: "limit_of (Some ''free'') f = Some (plan_field free_limits f)"
  by (simp add: limit_of_def planLimits_def js_key_def js_get_limits_known)

lemma limit_of_enterprise: "limit_of (Some ''enterprise'') f = Some (- 1)"
  by (cases f) (simp_all add: limit_of_def planLimits_def js_key_def js_get_limits_known
      enterprise_limits_def)

lemma check_unlimited:
  "limit_of p f = Some (- 1) \<Longrightarrow> checkSubscriptionLimits f p rows = Next None"
  by (simp add: checkSubscriptionLimits_def)

lemma check_limited:
  assumes "limit_of p f = Some l" and "l \<noteq> - 1"
  shows "checkSubscriptionLimits f p rows =
           (if currentUsage f rows < l
            then Next (Some \<lparr>ui_feature = f, ui_current_usage = currentUsage f rows,
                             ui_limit = Some l, ui_remaining = Some (l - currentUsage f rows)\<rparr>)
            else Denied \<lparr>le_status = 403, le_error = ''Subscription limit exceeded'',
                         le_current_usage = currentUsage f rows, le_limit = Some l,
                         le_upgrade_url = ''/api/payments/upgrade''\<rparr>)"
  using assms by (auto simp: checkSubscriptionLimits_def js_ge_def Let_def)

lemma limit_of_inherited:
  "k \<in> set object_prototype_keys \<Longrightarrow> limit_of (Some k) f = None"
  by (auto simp: limit_of_def planLimits_def js_key_def js_get_def limits_def
      object_prototype_keys_def)

lemma limit_of_fallback:
  assumes "js_key p \<notin> {''free'', ''basic'', ''pro'', ''enterprise''}"
    and "js_key p \<notin> set object_prototype_keys"
  shows "limit_of p f = Some (plan_field free_limits f)"
  using assms by (simp add: limit_of_def planLimits_def js_get_def limits_def)

text \<open>
  The decision of the guard for a plan whose lookup yields a number \<open>l\<close>: with the
  unlimited sentinel \<open>l = -1\<close> the request passes at once; otherwise it passes exactly
  when \<open>currentUsage < l\<close>, and a refused request gets the 403 body with the current
  usage, the limit and the upgrade path.
\<close>

lemma quota_rule_with_limit:
  assumes "limit_of plan f = Some l"
  shows "(l = - 1 \<longrightarrow> checkSubscriptionLimits f plan rows = Next None)
     \<and> (l \<noteq> - 1 \<longrightarrow>
           allowed (checkSubscriptionLimits f plan rows) = (currentUsage f rows < l))
     \<and> (l \<noteq> - 1 \<and> \<not> currentUsage f rows < l \<longrightarrow>
           checkSubscriptionLimits f plan rows =
             Denied \<lparr>le_status = 403, le_error = ''Subscription limit exceeded'',
                     le_current_usage = currentUsage f rows, le_limit = Some l,
                     le_upgrade_url = ''/api/payments/upgrade''\<rparr>)"
  using assms by (auto simp: check_unlimited check_limited)

lemma quota_rule_known_plans:
  "limit_of (Some ''free'') ai_requests_per_month = Some 100"
  "allowed (checkSubscriptionLimits ai_requests_per_month (Some ''free'') (jobs 99))"
  "checkSubscriptionLimits ai_requests_per_month (Some ''free'') (jobs 100) =
         Denied \<lparr>le_status = 403, le_error = ''Subscription limit exceeded'',
                 le_current_usage = 100, le_limit = Some 100,
                 le_upgrade_url = ''/api/payments/upgrade''\<rparr>"
  "checkSubscriptionLimits g (Some ''enterprise'') r = Next None"
proof -
  show free_limit: "limit_of (Some ''free'') ai_requests_per_month = Some 100"
    by (simp add: limit_of_free free_limits_def)
  show "allowed (checkSubscriptionLimits ai_requests_per_month (Some ''free'') (jobs 99))"
    using check_limited [OF free_limit, of "jobs 99"] by (simp add: jobs_def)
  show "checkSubscriptionLimits ai_requests_per_month (Some ''free'') (jobs 100) =
         Denied \<lparr>le_status = 403, le_error = ''Subscription limit exceeded'',
                 le_current_usage = 100, le_limit = Some 100,
                 le_upgrade_url = ''/api/payments/upgrade''\<rparr>"
    using check_limited [OF free_limit, of "jobs 100"] by (simp add: jobs_def)
  show "checkSubscriptionLimits g (Some ''enterprise'') r = Next None"
    by (simp add: check_unlimited limit_of_enterprise)
qed

text \<open>
  What the guard does for every plan, feature and usage: it passes when the limit is
  the sentinel, when usage is below the limit, and also when the lookup yields no
  number at all.
\<close>

lemma quota_guard_passes:
  "allowed (checkSubscriptionLimits f plan rows) =
     (case limit_of plan f of
        None \<Rightarrow> True
      | Some l \<Rightarrow> l = - 1 \<or> currentUsage f rows < l)"
  by (auto simp: checkSubscriptionLimits_def js_ge_def Let_def split: option.splits)

text \<open>
  C2. The rule (pass at once when the limit is \<open>-1\<close>, otherwise pass exactly when
  \<open>currentUsage < limit\<close>) does not hold for every tenant. For a tenant whose
  \<^verbatim>\<open>subscription_plan\<close> is \<^verbatim>\<open>'toString'\<close>, the name of a member inherited from
  \<^verbatim>\<open>Object.prototype\<close>, the lookup \<^verbatim>\<open>limits[subscriptionPlan]\<close> returns that member,
  the fallback to the free plan is not taken, and the limit is \<^verbatim>\<open>undefined\<close>: it is
  not \<open>-1\<close>, and yet the guard passes the request at every usage. With 50 distinct
  team members it passes and attaches a usage record without limit, where the free
  plan, and every plan with a finite limit of at most 50, refuses.
\<close>

theorem quota_rule_fails_for_inherited_plan_name:
  "limit_of (Some ''toString'') team_members = None
   \<and> limit_of (Some ''toString'') team_members \<noteq> Some (- 1)
   \<and> allowed (checkSubscriptionLimits team_members (Some ''toString'') rows)
   \<and> checkSubscriptionLimits team_members (Some ''toString'')
        \<lparr>ai_jobs_this_month = 0, distinct_team_members = 50, active_webhooks = 0,
          files_total_size = 0\<rparr> =
       Next (Some \<lparr>ui_feature = team_members, ui_current_usage = 50,
                    ui_limit = None, ui_remaining = None\<rparr>)
   \<and> checkSubscriptionLimits team_members (Some ''free'')
        \<lparr>ai_jobs_this_month = 0, distinct_team_members = 50, active_webhooks = 0,
          files_total_size = 0\<rparr> =
       Denied \<lparr>le_status = 403, le_error = ''Subscription limit exceeded'',
               le_current_usage = 50, le_limit = Some 3,
               le_upgrade_url = ''/api/payments/upgrade''\<rparr>"
proof -
  have a: "limit_of (Some ''toString'') team_members = None"
    by (rule limit_of_inherited) (simp add: object_prototype_keys_def)
  have b: "limit_of (Some ''free'') team_members = Some 3"
    by (simp add: limit_of_free free_limits_def)
  show ?thesis
    using a check_limited [OF b, of "\<lparr>ai_jobs_this_month = 0, distinct_team_members = 50,
        active_webhooks = 0, files_total_size = 0\<rparr>"]
    by (simp add: checkSubscriptionLimits_def js_ge_def)
qed

text \<open>
  C10. The fallback \<^verbatim>\<open>limits[subscriptionPlan] || limits.free\<close> applies the free-plan
  limits to a missing plan and to every unknown plan string that is not the name of a
  member inherited from \<^verbatim>\<open>Object.prototype\<close>. For such a name, here
  \<^verbatim>\<open>'constructor'\<close>, the lookup returns the inherited member, the limit is
  \<^verbatim>\<open>undefined\<close>, and the request passes at usage 100, where the free plan refuses it.
\<close>

theorem unknown_plan_constructor_not_free:
  "limit_of (Some ''constructor'') ai_requests_per_month = None
   \<and> checkSubscriptionLimits ai_requests_per_month (Some ''constructor'') (jobs 100) =
       Next (Some \<lparr>ui_feature = ai_requests_per_month, ui_current_usage = 100,
                    ui_limit = None, ui_remaining = None\<rparr>)
   \<and> \<not> allowed (checkSubscriptionLimits ai_requests_per_month (Some ''free'') (jobs 100))
   \<and> limit_of None ai_requests_per_month = Some 100
   \<and> limit_of (Some ''premium'') ai_requests_per_month = Some 100"
proof -
  have a: "limit_of (Some ''constructor'') ai_requests_per_month = None"
    by (rule limit_of_inherited) (simp add: object_prototype_keys_def)
  have b: "limit_of (Some ''free'') ai_requests_per_month = Some 100"
    by (simp add: limit_of_free free_limits_def)
  have c: "limit_of None ai_requests_per_month = Some 100"
    by (simp add: limit_of_fallback js_key_def object_prototype_keys_def free_limits_def)
  have d: "limit_of (Some ''premium'') ai_requests_per_month = Some 100"
    by (simp add: limit_of_fallback js_key_def object_prototype_keys_def free_limits_def)
  show ?thesis
    using a c d check_limited [OF b, of "jobs 100"]
    by (simp add: checkSubscriptionLimits_def js_ge_def jobs_def)
qed

section \<open>Hardware classification and model selection: properties\<close>

text \<open>
  C5. The category depends on the hardware only through \<^verbatim>\<open>hasGPU()\<close> and the GPU
  memory in GB: without a GPU (no controller, or zero memory) it is \<open>cpu_only\<close>; with
  one, memory up to and including 4 gives \<open>gpu_4gb\<close>, above 4 up to and including 8
  gives \<open>gpu_8gb\<close>, and above 8 gives \<open>gpu_16gb\<close>.
\<close>

theorem hardware_classification:
  "hardware_category hw =
     (if \<not> hasGPU hw then cpu_only
      else if getGPUMemory hw \<le> 4 then gpu_4gb
      else if getGPUMemory hw \<le> 8 then gpu_8gb
      else gpu_16gb)"
  by (auto simp: hardware_category_def hasGPU_def getGPUMemory_def Let_def split: option.splits)

theorem hardware_classification_witness:
  "hardware_category cpu_host = cpu_only
   \<and> hardware_category (gpu_host 0) = cpu_only
   \<and> hardware_category (gpu_host 1) = gpu_4gb
   \<and> hardware_category (gpu_host 4) = gpu_4gb
   \<and> hardware_category (gpu_host 5) = gpu_8gb
   \<and> hardware_category (gpu_host 8) = gpu_8gb
   \<and> hardware_category (gpu_host 9) = gpu_16gb
   \<and> hardware_category (gpu_host 16) = gpu_16gb"
  using hardware_classification [of cpu_host] hardware_classification [of "gpu_host 0"]
    hardware_classification [of "gpu_host 1"] hardware_classification [of "gpu_host 4"]
    hardware_classification [of "gpu_host 5"] hardware_classification [of "gpu_host 8"]
    hardware_classification [of "gpu_host 9"] hardware_classification [of "gpu_host 16"]
  by (simp add: hasGPU_def getGPUMemory_def gpu_host_def cpu_host_def)

lemma select_model_default:
  "falsy requested \<Longrightarrow> select_model requested None = Some ''gpt-3.5-turbo''"
  "falsy requested \<Longrightarrow> select_model requested (Some (m # ms)) = Some m"
  by (simp_all add: select_model_def)

lemma autoAssignModels_stored:
  "autoAssignModels a hw = Inr stored \<Longrightarrow>
     stored = (case aa_entry a (hardware_category hw) of Some l \<Rightarrow> Some l | None \<Rightarrow> aa_cpu_only a)"
  by (auto simp: autoAssignModels_def assignedModels_def split: option.splits)

lemma autoAssignModels_cpu_only:
  "\<not> hasGPU hw \<Longrightarrow> aa_cpu_only a = Some l \<Longrightarrow> autoAssignModels a hw = Inr (Some l)"
  by (auto simp: autoAssignModels_def assignedModels_def hardware_category_def hasGPU_def
      Let_def split: option.splits)


section \<open>Job pipeline: properties\<close>

lemma world_after_insert:
  "ai_models (insert_job j w) = ai_models w"
  "assigned_models (insert_job j w) = assigned_models w"
  "ai_job_updates (insert_job j w) = ai_job_updates w"
  "ai_jobs (insert_job j w) = ai_jobs w @ [j]"
  by (simp_all add: insert_job_def)

lemma world_after_update:
  "ai_models (update_job i f w) = ai_models w"
  "assigned_models (update_job i f w) = assigned_models w"
  "ai_job_updates (update_job i f w) = ai_job_updates w"
  "ai_jobs (update_job i f w) = map (\<lambda>j. if j_id j = i then f j else j) (ai_jobs w)"
  by (simp_all add: update_job_def)

lemma startTime_process:
  "read_var process_catch_scope ''startTime'' v = Inl (ReferenceError ''startTime is not defined'')"
  by (simp add: read_var_def process_catch_scope_def module_scope_def)

lemma startTime_stream: "read_var stream_catch_scope ''startTime'' v = Inr v"
  by (simp add: read_var_def stream_catch_scope_def)

lemma process_route_invalid:
  "\<not> valid_prompt (rq_prompt req) \<Longrightarrow> process_route env req w = (w, ValidationFailed [''prompt''])"
  by (simp add: process_route_def)

text \<open>
  The general form of the defect behind C1: whenever \<^verbatim>\<open>/process\<close> reaches the
  provider call and the call raises, the handler returns with the job still in
  \<open>processing\<close>, nothing published, and a 500 reply about \<^verbatim>\<open>startTime\<close>.
\<close>

lemma process_route_raises:
  assumes "valid_prompt (rq_prompt req)" and "e_initialized env"
    and "lookup_active_model (ai_models w) (select_model (rq_model req) (assigned_models w)) =
           modelInfo # rest"
    and "e_providers env (m_provider modelInfo) = Some provider"
    and "generateText provider (rq_prompt req)
           (call_options (select_model (rq_model req) (assigned_models w)) (rq_options req)) =
           Inl err"
  shows "process_route env req w =
           (update_job (e_uuid env)
              (\<lambda>j. j\<lparr>j_status := processing, j_model_id := Some (m_id modelInfo)\<rparr>)
              (insert_job (new_job env req pending None False) w),
            ErrorReply 500 ''Processing failed'' ''startTime is not defined'')"
  using assms by (simp add: process_route_def Let_def startTime_process world_after_insert)

lemmas example_defs =
  valid_prompt_def ask_def env_with_def registry_world_def select_model_def falsy_def
  lookup_active_model_def gpt4_row_def OpenAIProvider_def new_job_def update_job_def
  insert_job_def call_options_def model_or_default_def maxTokens_or_default_def
  streaming_capability_def or_null_def js_key_def

text \<open>
  C1. A synchronous request for the registered, active model \<^verbatim>\<open>gpt-4\<close> whose provider
  call raises \<^verbatim>\<open>Request timed out.\<close>: the handler returns with the job row in status
  \<open>processing\<close>, without error message, processing time or completion timestamp,
  with nothing published, and the caller is told \<^verbatim>\<open>startTime is not defined\<close> instead
  of the provider's error. The streaming route, which declares \<^verbatim>\<open>startTime\<close> before
  its \<^verbatim>\<open>try\<close>, finalises the job as \<open>failed\<close> on the same failure.
\<close>

theorem process_provider_failure_leaves_job_processing:
  "generateText (OpenAIProvider failing_client) ''Explain X''
     \<lparr>opt_model = Given ''gpt-4'', opt_maxTokens = Absent\<rparr> = Inl (Error ''Request timed out.'')
   \<and> process_route (env_with failing_client) (ask ''Explain X'' (Some ''gpt-4'')) registry_world =
       (registry_world\<lparr>ai_jobs :=
          [(new_job (env_with failing_client) (ask ''Explain X'' (Some ''gpt-4'')) pending None False)
             \<lparr>j_status := processing, j_model_id := Some 1\<rparr>]\<rparr>,
        ErrorReply 500 ''Processing failed'' ''startTime is not defined'')
   \<and> map j_status (ai_jobs (fst (process_route (env_with failing_client)
         (ask ''Explain X'' (Some ''gpt-4'')) registry_world))) = [processing]
   \<and> ai_job_updates (fst (process_route (env_with failing_client)
         (ask ''Explain X'' (Some ''gpt-4'')) registry_world)) = []
   \<and> map j_status (ai_jobs (fst (stream_route (env_with failing_client)
         (ask ''Explain X'' (Some ''gpt-4'')) registry_world))) = [failed]"
  by (simp add: process_route_def stream_route_def Let_def startTime_process startTime_stream
      example_defs openai_generateText_def openai_generateTextStream_def failing_client_def
      fail_job_def)

lemma lookup_active_model_empty:
  "(lookup_active_model rows sel = []) =
     (\<forall>r \<in> set rows. Some (m_name r) = sel \<longrightarrow> \<not> m_is_active r)"
  by (cases sel) (auto simp: lookup_active_model_def filter_empty_conv)

lemma process_route_model_unavailable:
  assumes "valid_prompt (rq_prompt req)" and "e_initialized env"
    and "lookup_active_model (ai_models w) (select_model (rq_model req) (assigned_models w)) = []"
  shows "process_route env req w =
           (reject_job env
              (''Model '' @ js_str (select_model (rq_model req) (assigned_models w)) @
               '' not found or inactive'')
              (insert_job (new_job env req pending None False) w),
            ErrorReply 400 ''Model not available''
              (''Model '' @ js_str (select_model (rq_model req) (assigned_models w)) @
               '' is not available''))"
  using assms by (simp add: process_route_def Let_def world_after_insert)

lemma stream_route_model_unavailable:
  assumes "e_initialized env"
    and "lookup_active_model (ai_models w) (select_model (rq_model req) (assigned_models w)) = []"
  shows "stream_route env req w = (w, StreamEvents [SseError ''Model not available''])"
  using assms by (simp add: stream_route_def Let_def)

lemma new_job_id: "j_id (new_job env req st mid s) = e_uuid env"
  by (simp add: new_job_def)

lemma new_job_providers: "new_job (env\<lparr>e_providers := ps\<rparr>) req st mid s = new_job env req st mid s"
  by (simp add: new_job_def)

text \<open>
  C3, as the code has it. Let the orchestrator be initialised and let the selected
  model have no active row in the registry (it is absent, or every row of that name is
  inactive). Then the streaming route writes the single event
  \<^verbatim>\<open>{ error: 'Model not available' }\<close> and leaves the state as it was: no job row is
  created. The synchronous route, for a valid prompt, answers 400
  \<^verbatim>\<open>Model not available\<close>; the job row it has inserted is there afterwards, and every
  row with the request's job id has status \<open>failed\<close> and the explanatory message. On
  both routes the outcome is the same whatever providers are registered: none is
  called.
\<close>

theorem model_unavailable_outcomes:
  assumes "e_initialized env"
    and "select_model (rq_model req) (assigned_models w) = sel"
    and "\<forall>r \<in> set (ai_models w). Some (m_name r) = sel \<longrightarrow> \<not> m_is_active r"
  shows "stream_route env req w = (w, StreamEvents [SseError ''Model not available''])
    \<and> (valid_prompt (rq_prompt req) \<longrightarrow>
         snd (process_route env req w) =
           ErrorReply 400 ''Model not available'' (''Model '' @ js_str sel @ '' is not available'')
       \<and> find_job (fst (process_route env req w)) (e_uuid env) \<noteq> []
       \<and> (\<forall>j \<in> set (find_job (fst (process_route env req w)) (e_uuid env)).
             j_status j = failed \<and>
             j_error_message j = Some (''Model '' @ js_str sel @ '' not found or inactive'')))
    \<and> (\<forall>ps. process_route (env\<lparr>e_providers := ps\<rparr>) req w = process_route env req w
            \<and> stream_route (env\<lparr>e_providers := ps\<rparr>) req w = stream_route env req w)"
proof -
  have none: "lookup_active_model (ai_models w) (select_model (rq_model req) (assigned_models w)) = []"
    using assms(2,3) by (simp add: lookup_active_model_empty)
  have s: "stream_route env req w = (w, StreamEvents [SseError ''Model not available''])"
    using assms(1) none by (rule stream_route_model_unavailable)
  have p: "valid_prompt (rq_prompt req) \<Longrightarrow>
      process_route env req w =
        (reject_job env (''Model '' @ js_str sel @ '' not found or inactive'')
           (insert_job (new_job env req pending None False) w),
         ErrorReply 400 ''Model not available'' (''Model '' @ js_str sel @ '' is not available''))"
    using process_route_model_unavailable [OF _ assms(1) none] assms(2) by simp
  have jobs: "valid_prompt (rq_prompt req) \<Longrightarrow>
      find_job (fst (process_route env req w)) (e_uuid env) \<noteq> []
      \<and> (\<forall>j \<in> set (find_job (fst (process_route env req w)) (e_uuid env)).
             j_status j = failed \<and>
             j_error_message j = Some (''Model '' @ js_str sel @ '' not found or inactive''))"
    by (auto simp: p find_job_def reject_job_def world_after_update world_after_insert
        new_job_id filter_empty_conv)
  have indep: "process_route (env\<lparr>e_providers := ps\<rparr>) req w = process_route env req w
            \<and> stream_route (env\<lparr>e_providers := ps\<rparr>) req w = stream_route env req w" for ps
  proof -
    have "stream_route (env\<lparr>e_providers := ps\<rparr>) req w = (w, StreamEvents [SseError ''Model not available''])"
      using assms(1) none by (intro stream_route_model_unavailable) simp_all
    moreover have "process_route (env\<lparr>e_providers := ps\<rparr>) req w = process_route env req w"
    proof (cases "valid_prompt (rq_prompt req)")
      case True
      have "process_route (env\<lparr>e_providers := ps\<rparr>) req w =
        (reject_job (env\<lparr>e_providers := ps\<rparr>) (''Model '' @ js_str sel @ '' not found or inactive'')
           (insert_job (new_job (env\<lparr>e_providers := ps\<rparr>) req pending None False) w),
         ErrorReply 400 ''Model not available'' (''Model '' @ js_str sel @ '' is not available''))"
        using process_route_model_unavailable [of req "env\<lparr>e_providers := ps\<rparr>" w] True assms(1,2) none
        by simp
      then show ?thesis using p [OF True] by (simp add: reject_job_def new_job_providers)
    next
      case False
      then show ?thesis by (simp add: process_route_invalid)
    qed
    ultimately show ?thesis using s by simp
  qed
  from s p jobs indep show ?thesis by simp
qed

theorem model_unavailable_outcomes_witness:
  "e_initialized (env_with answering_client)
   \<and> select_model (Some ''llama-9'') (assigned_models registry_world) = Some ''llama-9''
   \<and> valid_prompt ''Explain X''
   \<and> stream_route (env_with answering_client) (ask ''Explain X'' (Some ''llama-9'')) registry_world =
       (registry_world, StreamEvents [SseError ''Model not available''])
   \<and> snd (process_route (env_with answering_client) (ask ''Explain X'' (Some ''llama-9'')) registry_world) =
       ErrorReply 400 ''Model not available'' ''Model llama-9 is not available''
   \<and> find_job (fst (process_route (env_with answering_client)
        (ask ''Explain X'' (Some ''llama-9'')) registry_world)) ''job-1'' \<noteq> []"
proof -
  have a: "e_initialized (env_with answering_client)" by (simp add: env_with_def)
  have b: "select_model (rq_model (ask ''Explain X'' (Some ''llama-9''))) (assigned_models registry_world) =
             Some ''llama-9''"
    by (simp add: select_model_def falsy_def ask_def)
  have c: "\<forall>r \<in> set (ai_models registry_world). Some (m_name r) = Some ''llama-9'' \<longrightarrow> \<not> m_is_active r"
    by (simp add: registry_world_def gpt4_row_def)
  have d: "valid_prompt ''Explain X''" by (simp add: valid_prompt_def)
  show ?thesis
    using model_unavailable_outcomes [OF a b c] a b d
    by (simp add: ask_def env_with_def js_str_def)
qed

text \<open>
  The claim as stated fails on the streaming route: for the absent model
  \<^verbatim>\<open>llama-9\<close> the table of jobs is empty before and after the request, so no job
  record with status \<open>failed\<close> exists.
\<close>

theorem streaming_unavailable_model_creates_no_job:
  "lookup_active_model (ai_models registry_world) (Some ''llama-9'') = []
   \<and> ai_jobs registry_world = []
   \<and> ai_jobs (fst (stream_route (env_with answering_client)
        (ask ''Explain X'' (Some ''llama-9'')) registry_world)) = []
   \<and> snd (stream_route (env_with answering_client)
        (ask ''Explain X'' (Some ''llama-9'')) registry_world) =
       StreamEvents [SseError ''Model not available'']"
  by (simp add: stream_route_def Let_def example_defs)


lemma estimateTokens_examples:
  "estimateTokens ''Hello'' = 2" "estimateTokens '' world'' = 2"
  by (simp_all add: estimateTokens_def)

lemma four_tokens: "Suc (Suc (Suc (Suc 0))) = 4"
  by simp

text \<open>
  C4. An empty prompt, and one of 10,001 characters, fail the length check. The
  synchronous route rejects both before it touches the state. The streaming route
  runs both: a job row is inserted, the provider streams, and the job ends
  \<open>completed\<close>.
\<close>

theorem stream_route_runs_invalid_prompt:
  "\<not> valid_prompt [] \<and> \<not> valid_prompt (replicate 10001 CHR ''a'')
   \<and> process_route (env_with answering_client) (ask [] (Some ''gpt-4'')) registry_world =
       (registry_world, ValidationFailed [''prompt''])
   \<and> process_route (env_with answering_client)
        (ask (replicate 10001 CHR ''a'') (Some ''gpt-4'')) registry_world =
       (registry_world, ValidationFailed [''prompt''])
   \<and> snd (stream_route (env_with answering_client) (ask [] (Some ''gpt-4'')) registry_world) =
       StreamEvents
         [SseStarted ''job-1'', SseChunk ''job-1'' ''Hello'' 2, SseChunk ''job-1'' '' world'' 4,
          SseComplete ''job-1''
            \<lparr>prompt_tokens = None, completion_tokens = None, total_tokens = 4\<rparr>
            (calculateCost ''gpt-4'' 4) 250]
   \<and> map j_status (ai_jobs (fst (stream_route (env_with answering_client)
        (ask [] (Some ''gpt-4'')) registry_world))) = [completed]
   \<and> map j_status (ai_jobs (fst (stream_route (env_with answering_client)
        (ask (replicate 10001 CHR ''a'') (Some ''gpt-4'')) registry_world))) = [completed]"
  by (simp add: process_route_def stream_route_def Let_def example_defs
      openai_generateTextStream_def answering_client_def complete_job_def chunk_event_def
      estimateTokens_examples four_tokens)








lemma running_estimates_length: "length (running_estimates acc cs) = length cs"
  by (induction cs arbitrary: acc) auto

lemma chunk_filter: "filter (is_terminal_event i) (map (chunk_event j) cs) = []"
  by (induction cs) (auto simp: chunk_event_def)









lemma process_route_success:
  assumes "valid_prompt (rq_prompt req)" and "e_initialized env"
    and "lookup_active_model (ai_models w) (select_model (rq_model req) (assigned_models w)) =
           modelInfo # rest"
    and "e_providers env (m_provider modelInfo) = Some provider"
    and "generateText provider (rq_prompt req)
           (call_options (select_model (rq_model req) (assigned_models w)) (rq_options req)) =
           Inr result"
  shows "process_route env req w =
           (publish (JobCompleted (e_uuid env) (r_response result) (r_usage result)
                       (e_end env - e_start env))
              (complete_job env result (e_end env - e_start env)
                 (update_job (e_uuid env)
                    (\<lambda>j. j\<lparr>j_status := processing, j_model_id := Some (m_id modelInfo)\<rparr>)
                    (insert_job (new_job env req pending None False) w))),
            SuccessReply
              \<lparr>pd_jobId = e_uuid env, pd_response = r_response result,
               pd_model = select_model (rq_model req) (assigned_models w),
               pd_provider = r_provider result, pd_usage = r_usage result,
               pd_cost = r_cost result, pd_processingTime = e_end env - e_start env\<rparr>)"
  using assms by (simp add: process_route_def Let_def world_after_insert)

text \<open>
  Model resolution for a request without a model (none given, or the empty string),
  where a list with a first entry is stored, or none is: both routes select through
  \<open>select_model\<close> the first entry of the list stored under \<^verbatim>\<open>assigned_models\<close>, and
  \<^verbatim>\<open>gpt-3.5-turbo\<close> when no list is stored. The stored list is the one
  \<^verbatim>\<open>autoAssignModels\<close> wrote: the list of the hardware category, so the \<open>cpu_only\<close>
  list on a host without GPU. When the synchronous route then succeeds, the reply
  names exactly that model.
\<close>

lemma select_model_without_request:
  "falsy requested \<Longrightarrow>
     select_model requested stored =
       (case stored of
          None \<Rightarrow> Some ''gpt-3.5-turbo''
        | Some [] \<Rightarrow> None
        | Some (m # ms) \<Rightarrow> Some m)"
  by (simp add: select_model_def split: option.splits list.splits)

lemma model_resolution_with_stored_list:
  assumes "falsy (rq_model req)"
  shows "(assigned_models w = None \<longrightarrow>
            select_model (rq_model req) (assigned_models w) = Some ''gpt-3.5-turbo'')
    \<and> (\<forall>m ms. assigned_models w = Some (m # ms) \<longrightarrow>
            select_model (rq_model req) (assigned_models w) = Some m)
    \<and> (\<forall>a hw m ms. autoAssignModels a hw = Inr (assigned_models w) \<and>
            aa_entry a (hardware_category hw) = Some (m # ms) \<longrightarrow>
            select_model (rq_model req) (assigned_models w) = Some m)
    \<and> (\<forall>a hw m ms. autoAssignModels a hw = Inr (assigned_models w) \<and>
            \<not> hasGPU hw \<and> aa_cpu_only a = Some (m # ms) \<longrightarrow>
            select_model (rq_model req) (assigned_models w) = Some m)
    \<and> (\<forall>env modelInfo rest provider result.
            valid_prompt (rq_prompt req) \<and> e_initialized env \<and>
            lookup_active_model (ai_models w)
              (select_model (rq_model req) (assigned_models w)) = modelInfo # rest \<and>
            e_providers env (m_provider modelInfo) = Some provider \<and>
            generateText provider (rq_prompt req)
              (call_options (select_model (rq_model req) (assigned_models w)) (rq_options req)) =
              Inr result \<longrightarrow>
            (\<exists>d. snd (process_route env req w) = SuccessReply d \<and>
                 pd_model d = select_model (rq_model req) (assigned_models w)))"
proof -
  have 1: "assigned_models w = None \<longrightarrow>
            select_model (rq_model req) (assigned_models w) = Some ''gpt-3.5-turbo''"
    using assms by (simp add: select_model_default)
  have 2: "\<forall>m ms. assigned_models w = Some (m # ms) \<longrightarrow>
            select_model (rq_model req) (assigned_models w) = Some m"
    using assms by (simp add: select_model_default)
  have 3: "\<forall>a hw m ms. autoAssignModels a hw = Inr (assigned_models w) \<and>
            aa_entry a (hardware_category hw) = Some (m # ms) \<longrightarrow>
            select_model (rq_model req) (assigned_models w) = Some m"
    using assms by (auto dest!: autoAssignModels_stored simp: select_model_default)
  have 4: "\<forall>a hw m ms. autoAssignModels a hw = Inr (assigned_models w) \<and>
            \<not> hasGPU hw \<and> aa_cpu_only a = Some (m # ms) \<longrightarrow>
            select_model (rq_model req) (assigned_models w) = Some m"
  proof (intro allI impI, elim conjE)
    fix a hw m ms
    assume s: "autoAssignModels a hw = Inr (assigned_models w)"
      and g: "\<not> hasGPU hw" and c: "aa_cpu_only a = Some (m # ms)"
    from autoAssignModels_cpu_only [OF g c] s have "assigned_models w = Some (m # ms)" by simp
    then show "select_model (rq_model req) (assigned_models w) = Some m"
      using assms by (simp add: select_model_default)
  qed
  have 5: "\<forall>env modelInfo rest provider result.
            valid_prompt (rq_prompt req) \<and> e_initialized env \<and>
            lookup_active_model (ai_models w)
              (select_model (rq_model req) (assigned_models w)) = modelInfo # rest \<and>
            e_providers env (m_provider modelInfo) = Some provider \<and>
            generateText provider (rq_prompt req)
              (call_options (select_model (rq_model req) (assigned_models w)) (rq_options req)) =
              Inr result \<longrightarrow>
            (\<exists>d. snd (process_route env req w) = SuccessReply d \<and>
                 pd_model d = select_model (rq_model req) (assigned_models w))"
    by (intro allI impI, elim conjE) (simp add: process_route_success)
  from 1 2 3 4 5 show ?thesis by (intro conjI)
qed

text \<open>
  C6. A request without a model is not always resolved to a model. A configuration
  whose \<^verbatim>\<open>cpu_only\<close> list is empty is stored as it is on a host without GPU: an
  empty array is truthy, so neither \<^verbatim>\<open>|| auto_assignment.cpu_only\<close> nor the route's
  \<^verbatim>\<open>|| ['gpt-3.5-turbo']\<close> replaces it. The first entry of the stored list is then
  \<^verbatim>\<open>undefined\<close>: the synchronous route answers 400 \<^verbatim>\<open>Model undefined is not available\<close>
  and marks the job failed, the streaming route writes
  \<^verbatim>\<open>{ error: 'Model not available' }\<close>, although the default model is registered,
  active and served by a provider. With no list stored the same request is answered by
  \<^verbatim>\<open>gpt-3.5-turbo\<close>.
\<close>

theorem empty_assignment_list_resolves_no_model:
  "\<not> hasGPU cpu_host
   \<and> autoAssignModels empty_cpu_assignment cpu_host = Inr (Some [])
   \<and> select_model None (Some []) = None
   \<and> select_model None None = Some ''gpt-3.5-turbo''
   \<and> snd (process_route (env_with answering_client) (ask ''Explain X'' None)
            (stored_world (Some []))) =
       ErrorReply 400 ''Model not available'' ''Model undefined is not available''
   \<and> map j_status (ai_jobs (fst (process_route (env_with answering_client)
        (ask ''Explain X'' None) (stored_world (Some []))))) = [failed]
   \<and> map j_error_message (ai_jobs (fst (process_route (env_with answering_client)
        (ask ''Explain X'' None) (stored_world (Some []))))) =
       [Some ''Model undefined not found or inactive'']
   \<and> stream_route (env_with answering_client) (ask ''Explain X'' None)
        (stored_world (Some [])) =
       (stored_world (Some []), StreamEvents [SseError ''Model not available''])
   \<and> snd (process_route (env_with answering_client) (ask ''Explain X'' None)
            (stored_world None)) =
       SuccessReply
         \<lparr>pd_jobId = ''job-1'', pd_response = ''Hello world'',
          pd_model = Some ''gpt-3.5-turbo'', pd_provider = ''openai'',
          pd_usage = \<lparr>prompt_tokens = Some 3, completion_tokens = Some 2, total_tokens = 5\<rparr>,
          pd_cost = calculateCost ''gpt-3.5-turbo'' 5, pd_processingTime = 250\<rparr>"
proof -
  have g: "\<not> hasGPU cpu_host" by (simp add: hasGPU_def cpu_host_def)
  have s: "autoAssignModels empty_cpu_assignment cpu_host = Inr (Some [])"
    by (simp add: autoAssignModels_cpu_only [OF g] empty_cpu_assignment_def)
  have e: "select_model None (Some []) = None"
    by (simp add: select_model_def falsy_def)
  have d: "select_model None None = Some ''gpt-3.5-turbo''"
    by (simp add: select_model_def falsy_def)
  have p: "process_route (env_with answering_client) (ask ''Explain X'' None)
            (stored_world (Some [])) =
       (reject_job (env_with answering_client) ''Model undefined not found or inactive''
          (insert_job (new_job (env_with answering_client) (ask ''Explain X'' None) pending None False)
             (stored_world (Some []))),
        ErrorReply 400 ''Model not available'' ''Model undefined is not available'')"
    by (simp add: process_route_def Let_def valid_prompt_def ask_def env_with_def
        stored_world_def select_model_def falsy_def lookup_active_model_def insert_job_def
        js_str_def)
  have p1: "snd (process_route (env_with answering_client) (ask ''Explain X'' None)
            (stored_world (Some []))) =
       ErrorReply 400 ''Model not available'' ''Model undefined is not available''"
    by (simp only: p snd_conv)
  have p2: "map j_status (ai_jobs (fst (process_route (env_with answering_client)
        (ask ''Explain X'' None) (stored_world (Some []))))) = [failed]"
    unfolding p fst_conv
    by (simp add: reject_job_def update_job_def insert_job_def new_job_def env_with_def
        stored_world_def)
  have p3: "map j_error_message (ai_jobs (fst (process_route (env_with answering_client)
        (ask ''Explain X'' None) (stored_world (Some []))))) =
       [Some ''Model undefined not found or inactive'']"
    unfolding p fst_conv
    by (simp add: reject_job_def update_job_def insert_job_def new_job_def env_with_def
        stored_world_def)
  have q: "stream_route (env_with answering_client) (ask ''Explain X'' None)
        (stored_world (Some [])) =
       (stored_world (Some []), StreamEvents [SseError ''Model not available''])"
    by (simp add: stream_route_def Let_def ask_def env_with_def stored_world_def
        select_model_def falsy_def lookup_active_model_def)
  have r: "snd (process_route (env_with answering_client) (ask ''Explain X'' None)
            (stored_world None)) =
       SuccessReply
         \<lparr>pd_jobId = ''job-1'', pd_response = ''Hello world'',
          pd_model = Some ''gpt-3.5-turbo'', pd_provider = ''openai'',
          pd_usage = \<lparr>prompt_tokens = Some 3, completion_tokens = Some 2, total_tokens = 5\<rparr>,
          pd_cost = calculateCost ''gpt-3.5-turbo'' 5, pd_processingTime = 250\<rparr>"
    by (simp add: process_route_def Let_def valid_prompt_def ask_def env_with_def
        stored_world_def select_model_def falsy_def lookup_active_model_def insert_job_def
        gpt35_row_def gpt4_row_def OpenAIProvider_def openai_generateText_def
        answering_client_def call_options_def model_or_default_def maxTokens_or_default_def
        js_key_def)
  from g s e d p1 p2 p3 q r show ?thesis by (intro conjI)
qed


section \<open>Model registry: properties\<close>

lemma unique_indexes_repository: "unique_indexes ai_models_table = [[''id'']]"
  by (simp add: unique_indexes_def ai_models_table_def)

lemma no_arbiter_index:
  "infer_arbiter_index ai_models_table [''name''] =
     Inl (DbError ''42P10''
       ''there is no unique or exclusion constraint matching the ON CONFLICT specification'')"
  by (simp add: infer_arbiter_index_def unique_indexes_repository)

text \<open>
  On the table the repository creates, no run of the statement succeeds: it raises
  when its parameters are bound or when it is planned, before a row is touched.
\<close>

lemma insert_on_conflict_raises:
  "\<exists>e. insert_on_conflict ai_models_table now fresh sp rows = Inl e"
  by (cases "on_option (bind_integer (column_type ai_models_table ''max_tokens'')) (sp_max_tokens sp)")
     (simp_all add: insert_on_conflict_def then_do_def no_arbiter_index)

lemma insert_on_conflict_42P10:
  assumes "case sp_max_tokens sp of None \<Rightarrow> True | Some n \<Rightarrow> int n \<le> 2147483647"
  shows "insert_on_conflict ai_models_table now fresh sp rows =
     Inl (DbError ''42P10''
       ''there is no unique or exclusion constraint matching the ON CONFLICT specification'')"
proof -
  have "column_type ai_models_table ''max_tokens'' = Some INTEGER"
    by (simp add: column_type_def ai_models_table_def)
  then have "\<exists>v. on_option (bind_integer (column_type ai_models_table ''max_tokens''))
                 (sp_max_tokens sp) = Inr v"
    using assms by (cases "sp_max_tokens sp") simp_all
  then show ?thesis
    by (auto simp: insert_on_conflict_def then_do_def no_arbiter_index)
qed

lemma upsert_all_stores_nothing:
  "fst (upsert_all ai_models_table clock i sps rows) = rows"
proof (cases sps)
  case Nil
  then show ?thesis by simp
next
  case (Cons sp rest)
  from insert_on_conflict_raises [of "clock i" "fresh_id rows" sp rows]
  obtain e where "insert_on_conflict ai_models_table (clock i) (fresh_id rows) sp rows = Inl e" ..
  then show ?thesis by (simp add: Cons)
qed

lemma upsert_all_raises:
  "sps \<noteq> [] \<Longrightarrow> \<exists>e. snd (upsert_all ai_models_table clock i sps rows) = Some e"
proof (cases sps)
  case Nil
  assume "sps \<noteq> []"
  with Nil show ?thesis by simp
next
  case (Cons sp rest)
  from insert_on_conflict_raises [of "clock i" "fresh_id rows" sp rows]
  obtain e where "insert_on_conflict ai_models_table (clock i) (fresh_id rows) sp rows = Inl e" ..
  then show ?thesis by (simp add: Cons)
qed

text \<open>
  With a unique index on \<^verbatim>\<open>name\<close>, which the statement presupposes and the schema
  lacks, the same loop registers the four default models, and registering
  \<^verbatim>\<open>gpt-4\<close> again with another provider and cost changes the cost of the one row and
  keeps its provider and active flag.
\<close>

lemma arbiter_index_with_unique_name:
  "infer_arbiter_index (with_unique_name ai_models_table) [''name''] = Inr [''name'']"
  by (simp add: infer_arbiter_index_def unique_indexes_def with_unique_name_def
      ai_models_table_def)

lemma registration_with_unique_name:
  "map (\<lambda>r. (m_name r, m_provider r, m_performance_tier r, m_cost_per_token r, m_is_active r))
     (fst (upsert_all (with_unique_name ai_models_table) (\<lambda>i. 100 + i) 0
        (collect_models default_models) [])) =
     [(''gpt-4'', ''openai'', Some ''high'', Some (3 / 100000), True),
      (''gpt-3.5-turbo'', ''openai'', Some ''medium'', Some (2 / 1000000), True),
      (''llama2-7b'', ''local'', Some ''medium'', Some 0, True),
      (''llama2-13b'', ''local'', Some ''high'', Some 0, True)]"
  "snd (upsert_all (with_unique_name ai_models_table) (\<lambda>i. 100 + i) 0
        (collect_models default_models) []) = None"
  "upsert_all (with_unique_name ai_models_table) (\<lambda>i. 100 + i) 7
     [openai_spec (''gpt-4'', gpt4_config\<lparr>cfg_provider := Some ''azure'',
                                          cfg_cost_per_token := Some (1 / 100000)\<rparr>)]
     [gpt4_row\<lparr>m_is_active := False\<rparr>] =
   ([gpt4_row\<lparr>m_is_active := False,
       m_configuration := gpt4_config\<lparr>cfg_provider := Some ''azure'',
                                       cfg_cost_per_token := Some (1 / 100000)\<rparr>,
       m_cost_per_token := Some (1 / 100000), m_updated_at := 107\<rparr>], None)"
  by code_simp+

text \<open>
  C8. On the table \<^verbatim>\<open>ai_models\<close> as the repository creates it, registering a model
  and looking it up returns nothing. The only unique index of the table is its primary
  key, so every \<^verbatim>\<open>INSERT ... ON CONFLICT (name)\<close> of \<^verbatim>\<open>registerModels\<close> raises
  (SQLSTATE \<^verbatim>\<open>42P10\<close>) when it is planned: registering the default models raises at
  the first of them and leaves the table as it was, an empty table stays empty, and
  for every configuration and every table the run stores nothing.
\<close>

theorem registerModels_raises_without_unique_name:
  "unique_indexes ai_models_table = [[''id'']]
   \<and> registerModels clock default_models rows =
       (rows, Some (DbError ''42P10''
          ''there is no unique or exclusion constraint matching the ON CONFLICT specification''))
   \<and> lookup_model (fst (registerModels clock default_models [])) ''gpt-4'' = []
   \<and> fst (registerModels clock ms rows) = rows"
proof -
  have first: "collect_models default_models =
      openai_spec (''gpt-4'', gpt4_config) #
      [openai_spec (''gpt-3.5-turbo'', gpt35_config), local_spec (''llama2-7b'', llama2_7b_config),
       local_spec (''llama2-13b'', llama2_13b_config)]"
    by (simp add: collect_models_def default_models_def)
  have m: "case sp_max_tokens (openai_spec (''gpt-4'', gpt4_config)) of
             None \<Rightarrow> True | Some n \<Rightarrow> int n \<le> 2147483647"
    by (simp add: openai_spec_def gpt4_config_def)
  have a: "registerModels clock default_models rows =
       (rows, Some (DbError ''42P10''
          ''there is no unique or exclusion constraint matching the ON CONFLICT specification''))"
    unfolding registerModels_def first
    by (simp add: insert_on_conflict_42P10 [OF m])
  have b: "fst (registerModels clock ms rows) = rows" for ms rows
    unfolding registerModels_def by (rule upsert_all_stores_nothing)
  have c: "lookup_model (fst (registerModels clock default_models [])) ''gpt-4'' = []"
    unfolding b by (simp add: lookup_model_def)
  from unique_indexes_repository a c b show ?thesis by (intro conjI)
qed


section \<open>JavaScript numbers and cost: properties\<close>

lemma normalise_invariant:
  "normalise n a b e = Some (a', b', e') \<Longrightarrow> 0 < a \<Longrightarrow> 0 < b \<Longrightarrow>
     0 < a' \<and> 0 < b'
     \<and> (of_int a / of_int b) * 2 powi e = ((of_int a' / of_int b') * 2 powi e' :: rat)
     \<and> 4503599627370496 * b' \<le> a' \<and> a' < 9007199254740992 * b'
     \<and> (a < 9007199254740992 * b \<longrightarrow> b' = b)"
proof (induction n a b e rule: normalise.induct)
  case (1 a b e)
  then show ?case by simp
next
  case (2 n a b e)
  show ?case
  proof (cases "a < 4503599627370496 * b")
    case True
    then have "normalise n (2 * a) b (e - 1) = Some (a', b', e')"
      using "2.prems"(1) by simp
    from "2.IH"(1) [OF True this] "2.prems"(2,3)
    have ih: "0 < a' \<and> 0 < b'
       \<and> 4503599627370496 * b' \<le> a' \<and> a' < 9007199254740992 * b'
       \<and> (2 * a < 9007199254740992 * b \<longrightarrow> b' = b)"
      and e1: "(of_int (2 * a) / of_int b) * 2 powi (e - 1) = ((of_int a' / of_int b') * 2 powi e' :: rat)"
      by simp_all
    have e2: "(of_int (2 * a) / of_int b) * 2 powi (e - 1) = ((of_int a / of_int b) * 2 powi e :: rat)"
      by (simp add: power_int_diff)
    have "(of_int a / of_int b) * 2 powi e = ((of_int a' / of_int b') * 2 powi e' :: rat)"
      by (simp only: e2 [symmetric] e1)
    moreover have "2 * a < 9007199254740992 * b" using True by simp
    ultimately show ?thesis using ih by blast
  next
    case False
    show ?thesis
    proof (cases "9007199254740992 * b \<le> a")
      case True
      then have "normalise n a (2 * b) (e + 1) = Some (a', b', e')"
        using "2.prems"(1) False by simp
      from "2.IH"(2) [OF False True this] "2.prems"(2,3)
      have ih: "0 < a' \<and> 0 < b'
         \<and> 4503599627370496 * b' \<le> a' \<and> a' < 9007199254740992 * b'"
        and e1: "(of_int a / of_int (2 * b)) * 2 powi (e + 1) = ((of_int a' / of_int b') * 2 powi e' :: rat)"
        by simp_all
      have e2: "(of_int a / of_int (2 * b)) * 2 powi (e + 1) = ((of_int a / of_int b) * 2 powi e :: rat)"
        by (simp add: power_int_add)
      have "(of_int a / of_int b) * 2 powi e = ((of_int a' / of_int b') * 2 powi e' :: rat)"
        by (simp only: e2 [symmetric] e1)
      moreover have "\<not> a < 9007199254740992 * b" using True by simp
      ultimately show ?thesis using ih by blast
    next
      case F2: False
      then show ?thesis using "2.prems" False by auto
    qed
  qed
qed

lemma round_half_even_div_error:
  assumes "0 < b"
  shows "\<bar>of_int (round_half_even_div a b) - (of_int a / of_int b :: rat)\<bar> \<le> 1 / 2"
proof -
  define q where "q = a div b"
  define m where "m = a mod b"
  have a: "a = b * q + m" by (simp add: q_def m_def)
  have m: "0 \<le> m" "m < b" using assms by (simp_all add: m_def)
  have frac: "(of_int a / of_int b :: rat) = of_int q + of_int m / of_int b"
    using assms by (simp add: a field_simps)
  have b0: "(0::rat) < of_int b" using assms by simp
  consider "2 * m < b" | "b < 2 * m" | "2 * m = b" by linarith
  then show ?thesis
  proof cases
    case 1
    then have r: "round_half_even_div a b = q"
      by (simp add: round_half_even_div_def Let_def q_def m_def)
    have "(of_int m / of_int b :: rat) \<le> 1 / 2"
      using 1 b0 by (simp add: field_simps)
    moreover have "(0::rat) \<le> of_int m / of_int b" using m b0 by simp
    ultimately show ?thesis by (simp add: r frac)
  next
    case 2
    then have r: "round_half_even_div a b = q + 1"
      by (simp add: round_half_even_div_def Let_def q_def m_def)
    have "(1 / 2 :: rat) \<le> of_int m / of_int b"
      using 2 b0 by (simp add: field_simps)
    moreover have "(of_int m / of_int b :: rat) \<le> 1" using m b0 by (simp add: field_simps)
    ultimately show ?thesis by (simp add: r frac)
  next
    case 3
    have "(of_int b :: rat) = 2 * of_int m"
      using 3 by (metis of_int_mult of_int_numeral)
    then have "(of_int m / of_int b :: rat) = 1 / 2"
      using b0 by simp
    then have h: "(of_int a / of_int b :: rat) = of_int q + 1 / 2"
      using frac by simp
    have "round_half_even_div a b = q \<or> round_half_even_div a b = q + 1"
      using 3 by (simp add: round_half_even_div_def Let_def q_def m_def)
    then show ?thesis
    proof
      assume "round_half_even_div a b = q"
      then show ?thesis unfolding h by simp
    next
      assume "round_half_even_div a b = q + 1"
      then show ?thesis unfolding h by simp
    qed
  qed
qed


lemma round_half_even_div_bounds:
  assumes "0 < b" and "4503599627370496 * b \<le> a" and "a < 9007199254740992 * b"
  shows "4503599627370496 \<le> round_half_even_div a b"
    and "round_half_even_div a b \<le> 9007199254740992"
proof -
  have "(4503599627370496 * b) div b \<le> a div b"
    using assms(2,1) by (rule zdiv_mono1)
  then have lo: "4503599627370496 \<le> a div b"
    using assms(1) by simp
  have below: "a div b * b \<le> a"
    using assms(1) div_mult_mod_eq [of a b] pos_mod_sign [of b a] by linarith
  have hi: "a div b < 9007199254740992"
  proof (rule ccontr)
    assume "\<not> a div b < 9007199254740992"
    then have "9007199254740992 * b \<le> a div b * b"
      using assms(1) by (intro mult_right_mono) simp_all
    then show False using below assms(3) by linarith
  qed
  show "4503599627370496 \<le> round_half_even_div a b"
    using lo by (simp add: round_half_even_div_def Let_def)
  show "round_half_even_div a b \<le> 9007199254740992"
    using hi by (simp add: round_half_even_div_def Let_def)
qed

lemma nearest_double_error:
  assumes "nearest_double a b e = Some d" and "0 < a" and "0 < b"
  shows "\<bar>val d - (of_int a / of_int b) * 2 powi e\<bar> \<le>
           (of_int a / of_int b) * 2 powi e / 9007199254740992"
    and "4503599627370496 \<le> mantissa d" and "mantissa d \<le> 9007199254740992"
    and "a < 9007199254740992 * b \<Longrightarrow> b = 1 \<Longrightarrow> val d = of_int a * 2 powi e"
proof -
  from assms obtain a' b' e' where n: "normalise 1100 a b e = Some (a', b', e')"
    and d: "d = \<lparr>mantissa = round_half_even_div a' b', exponent = e'\<rparr>"
    by (auto simp: nearest_double_def Let_def split: option.splits if_splits)
  from normalise_invariant [OF n assms(2,3)]
  have pos: "0 < a'" "0 < b'"
    and eq: "(of_int a / of_int b) * 2 powi e = ((of_int a' / of_int b') * 2 powi e' :: rat)"
    and lo: "4503599627370496 * b' \<le> a'" and hi: "a' < 9007199254740992 * b'"
    and same: "a < 9007199254740992 * b \<longrightarrow> b' = b"
    by simp_all
  let ?p = "2 powi e' :: rat"
  let ?q = "of_int a' / of_int b' :: rat"
  let ?r = "of_int (round_half_even_div a' b') :: rat"
  have p: "0 < ?p" by simp
  have v: "val d = ?r * ?p" by (simp add: val_def d)
  have "val d - ?q * ?p = (?r - ?q) * ?p"
    unfolding v by (simp only: left_diff_distrib)
  then have "\<bar>val d - ?q * ?p\<bar> = \<bar>?r - ?q\<bar> * ?p"
    using p by (simp only: abs_mult abs_of_pos)
  also have "\<dots> \<le> 1 / 2 * ?p"
    using round_half_even_div_error [OF pos(2), of a'] p by (intro mult_right_mono) simp_all
  also have "\<dots> \<le> ?q * ?p / 9007199254740992"
  proof -
    have "(4503599627370496 :: rat) * of_int b' \<le> of_int a'"
      using lo by (metis of_int_le_iff of_int_mult of_int_numeral)
    then have "(4503599627370496 :: rat) \<le> ?q"
      using pos(2) by (simp add: field_simps)
    then have "4503599627370496 * ?p \<le> ?q * ?p"
      using p by (intro mult_right_mono) simp_all
    then have "4503599627370496 * ?p / 9007199254740992 \<le> ?q * ?p / 9007199254740992"
      by (rule divide_right_mono) simp
    moreover have "1 / 2 * ?p = 4503599627370496 * ?p / 9007199254740992" by simp
    ultimately show ?thesis by (simp only:)
  qed
  finally show "\<bar>val d - (of_int a / of_int b) * 2 powi e\<bar> \<le>
           (of_int a / of_int b) * 2 powi e / 9007199254740992"
    unfolding eq .
  show "4503599627370496 \<le> mantissa d" "mantissa d \<le> 9007199254740992"
    using round_half_even_div_bounds [OF pos(2) lo hi] by (simp_all add: d)
  show "val d = of_int a * 2 powi e" if "a < 9007199254740992 * b" "b = 1"
  proof -
    have b': "b' = 1" using same that by simp
    have "round_half_even_div a' 1 = a'" by (simp add: round_half_even_div_def)
    then have "val d = of_int a' * ?p" by (simp add: val_def d b')
    then show ?thesis using eq by (simp add: b' that(2))
  qed
qed

lemma normalise_down:
  "0 < b \<Longrightarrow> 9007199254740992 * b \<le> a \<Longrightarrow> a < 9007199254740992 * b * 2 ^ k \<Longrightarrow> k < n \<Longrightarrow>
     \<exists>a' b' e'. normalise n a b e = Some (a', b', e') \<and> e < e' \<and> e' \<le> e + int k"
proof (induction k arbitrary: n b e)
  case 0
  then show ?case by simp
next
  case (Suc k)
  then obtain n' where n: "n = Suc n'" and k: "k < n'" by (cases n) auto
  have step: "normalise n a b e = normalise n' a (2 * b) (e + 1)"
    using Suc.prems(1,2) by (simp add: n)
  show ?case
  proof (cases "9007199254740992 * (2 * b) \<le> a")
    case True
    have "a < 9007199254740992 * (2 * b) * 2 ^ k" using Suc.prems(3) by (simp add: mult.assoc)
    from Suc.IH [OF _ True this k, of "e + 1"] Suc.prems(1)
    obtain a' b' e' where "normalise n' a (2 * b) (e + 1) = Some (a', b', e')"
      "e + 1 < e'" "e' \<le> e + 1 + int k" by auto
    then show ?thesis unfolding step by (intro exI [of _ a'] exI [of _ b'] exI [of _ e']) simp
  next
    case False
    obtain n'' where "n' = Suc n''" using k by (cases n') auto
    then have "normalise n' a (2 * b) (e + 1) = Some (a, 2 * b, e + 1)"
      using False Suc.prems(1,2) by simp
    then show ?thesis unfolding step by simp
  qed
qed

lemma normalise_up:
  "0 < a \<Longrightarrow> 0 < b \<Longrightarrow> a < 4503599627370496 * b \<Longrightarrow> 4503599627370496 * b \<le> a * 2 ^ k \<Longrightarrow>
     k < n \<Longrightarrow> \<exists>a' b' e'. normalise n a b e = Some (a', b', e') \<and> e - int k \<le> e' \<and> e' < e"
proof (induction k arbitrary: n a e)
  case 0
  then show ?case by simp
next
  case (Suc k)
  then obtain n' where n: "n = Suc n'" and k: "k < n'" by (cases n) auto
  have step: "normalise n a b e = normalise n' (2 * a) b (e - 1)"
    using Suc.prems(3) by (simp add: n)
  show ?case
  proof (cases "2 * a < 4503599627370496 * b")
    case True
    have "4503599627370496 * b \<le> 2 * a * 2 ^ k"
      using Suc.prems(4) by (simp add: mult.assoc mult.left_commute)
    from Suc.IH [OF _ Suc.prems(2) True this k, of "e - 1"] Suc.prems(1)
    obtain a' b' e' where "normalise n' (2 * a) b (e - 1) = Some (a', b', e')"
      "e - 1 - int k \<le> e'" "e' < e - 1" by auto
    then show ?thesis unfolding step by (intro exI [of _ a'] exI [of _ b'] exI [of _ e']) simp
  next
    case False
    obtain n'' where "n' = Suc n''" using k by (cases n') auto
    then have "normalise n' (2 * a) b (e - 1) = Some (2 * a, b, e - 1)"
      using False Suc.prems(3) by simp
    then show ?thesis unfolding step by simp
  qed
qed


lemma normalise_in_range:
  "0 < n \<Longrightarrow> 4503599627370496 * b \<le> a \<Longrightarrow> a < 9007199254740992 * b \<Longrightarrow>
     normalise n a b e = Some (a, b, e)"
  by (cases n) auto

lemma nearest_double_defined:
  "0 < a \<Longrightarrow> normalise 1100 a b e = Some (a', b', e') \<Longrightarrow> - 1074 \<le> e' \<Longrightarrow> e' < 971 \<Longrightarrow>
     \<exists>d. nearest_double a b e = Some d \<and> exponent d = e'"
  by (simp add: nearest_double_def Let_def)

lemma number_of_nat_exact:
  assumes "0 < t" and "t < 9007199254740992"
  shows "\<exists>d. number_of_nat t = Num d \<and> val d = of_nat t
           \<and> 4503599627370496 \<le> mantissa d \<and> mantissa d \<le> 9007199254740992
           \<and> - 52 \<le> exponent d \<and> exponent d \<le> 0"
proof -
  have a: "0 < int t" "int t < 9007199254740992 * 1" using assms by simp_all
  have "\<exists>a' b' e'. normalise 1100 (int t) 1 0 = Some (a', b', e') \<and> - 52 \<le> e' \<and> e' \<le> 0"
  proof (cases "int t < 4503599627370496")
    case True
    have "4503599627370496 * 1 \<le> int t * 2 ^ 52" using a(1) by simp
    from normalise_up [OF a(1) _ _ this, of 1100 0] True show ?thesis by fastforce
  next
    case False
    then show ?thesis using a by (simp add: normalise_in_range)
  qed
  then obtain a' b' e' where "normalise 1100 (int t) 1 0 = Some (a', b', e')"
    and e: "- 52 \<le> e'" "e' \<le> 0" by blast
  from nearest_double_defined [OF a(1) this(1)] e
  obtain d where d: "nearest_double (int t) 1 0 = Some d" and ed: "exponent d = e'" by auto
  from nearest_double_error(2,3) [OF d a(1)] nearest_double_error(4) [OF d a(1) _ a(2)] e
  show ?thesis by (simp add: number_of_nat_def to_number_def d ed)
qed

text \<open>
  \<^verbatim>\<open>parseInt\<close> of a sum below \<open>2^53\<close> bytes is exact, so the storage usage is the
  number of gigabytes rounded up; beyond, the sum is rounded first.
\<close>

lemma parseInt_exact:
  assumes "\<bar>n\<bar> < 9007199254740992"
  shows "parseInt n = of_int n"
proof (cases "n = 0")
  case True
  then show ?thesis by (simp add: parseInt_def nearest_double_def val_def)
next
  case False
  let ?t = "nat \<bar>n\<bar>"
  have t: "0 < ?t" "?t < 9007199254740992" using False assms by simp_all
  from number_of_nat_exact [OF t]
  obtain d where d: "number_of_nat ?t = Num d" and v: "val d = of_nat ?t" by blast
  have i: "int ?t = \<bar>n\<bar>" by simp
  have "nearest_double \<bar>n\<bar> 1 0 = Some d"
    using d unfolding number_of_nat_def i by (cases "nearest_double \<bar>n\<bar> 1 0") (simp_all add: to_number_def)
  moreover have "val d = of_int \<bar>n\<bar>"
    unfolding v by (rule of_nat_nat) simp
  ultimately show ?thesis by (simp add: parseInt_def)
qed

lemma storage_usage_exact:
  "\<bar>n\<bar> < 9007199254740992 \<Longrightarrow> storage_usage n = \<lceil>of_int n / (1073741824 :: rat)\<rceil>"
  by (simp add: storage_usage_def parseInt_exact)

lemma storage_usage_examples:
  "storage_usage 0 = 0"
  "storage_usage 1 = 1"
  "storage_usage 1073741824 = 1"
  "storage_usage 1073741825 = 2"
  "storage_usage 4611686018427387905 = 4294967296"
  by code_simp+

lemma js_times_error:
  assumes "4503599627370496 \<le> mantissa x" and "mantissa x \<le> 9007199254740992"
    and "4503599627370496 \<le> mantissa y" and "mantissa y \<le> 9007199254740992"
    and "- 1074 \<le> exponent x + exponent y" and "exponent x + exponent y + 54 < 971"
  shows "\<exists>d. js_times (Num x) (Num y) = Num d
           \<and> \<bar>val d - val x * val y\<bar> \<le> val x * val y / 9007199254740992"
proof -
  let ?a = "mantissa x * mantissa y"
  let ?e = "exponent x + exponent y"
  have lo: "4503599627370496 * 4503599627370496 \<le> ?a"
    using assms(1,3) by (intro mult_mono) simp_all
  have hi: "?a \<le> 9007199254740992 * 9007199254740992"
    using assms(1-4) by (intro mult_mono) simp_all
  have pos: "0 < ?a" using lo by simp
  have "\<exists>a' b' e'. normalise 1100 ?a 1 ?e = Some (a', b', e') \<and> ?e < e' \<and> e' \<le> ?e + int 54"
  proof (rule normalise_down)
    show "(0::int) < 1" by simp
    show "9007199254740992 * 1 \<le> ?a" using lo by simp
    show "?a < 9007199254740992 * 1 * 2 ^ 54" using hi by simp
    show "(54::nat) < 1100" by simp
  qed
  then obtain a' b' e' where n: "normalise 1100 ?a 1 ?e = Some (a', b', e')"
    and e: "?e < e'" "e' \<le> ?e + 54" by auto
  have "- 1074 \<le> e'" "e' < 971" using e assms(5,6) by simp_all
  from nearest_double_defined [OF pos n this]
  obtain d where d: "nearest_double ?a 1 ?e = Some d" by blast
  have v: "(of_int ?a / of_int 1) * 2 powi ?e = (val x * val y :: rat)"
    by (simp add: val_def power_int_add)
  from nearest_double_error(1) [OF d pos, unfolded v]
  show ?thesis by (simp add: to_number_def d)
qed

lemma decimal_error:
  assumes "decimal a k = Num d" and "0 < a"
  shows "\<bar>val d - of_nat a / 10 ^ k\<bar> \<le> (of_nat a / 10 ^ k) / 9007199254740992"
    and "4503599627370496 \<le> mantissa d" and "mantissa d \<le> 9007199254740992"
proof -
  have d: "nearest_double (int a) (10 ^ k) 0 = Some d"
    using assms(1) by (simp add: decimal_def to_number_def split: option.splits)
  have pos: "0 < int a" "(0::int) < 10 ^ k" using assms(2) by simp_all
  have v: "(of_int (int a) / of_int (10 ^ k)) * 2 powi 0 = (of_nat a / 10 ^ k :: rat)"
    by simp
  from nearest_double_error(1) [OF d pos, unfolded v]
  show "\<bar>val d - of_nat a / 10 ^ k\<bar> \<le> (of_nat a / 10 ^ k) / 9007199254740992" .
  from nearest_double_error(2,3) [OF d pos]
  show "4503599627370496 \<le> mantissa d" "mantissa d \<le> 9007199254740992" .
qed

lemma nearest_double_rates:
  "nearest_double 3 100000 0 = Some \<lparr>mantissa = 8854437155380585, exponent = - 68\<rparr>"
  "nearest_double 1 100000 0 = Some \<lparr>mantissa = 5902958103587057, exponent = - 69\<rparr>"
  "nearest_double 2 1000000 0 = Some \<lparr>mantissa = 4722366482869645, exponent = - 71\<rparr>"
  "nearest_double 4 1000000 0 = Some \<lparr>mantissa = 4722366482869645, exponent = - 70\<rparr>"
  by code_simp+

lemma decimal_rates:
  "decimal 3 5 = Num \<lparr>mantissa = 8854437155380585, exponent = - 68\<rparr>"
  "decimal 1 5 = Num \<lparr>mantissa = 5902958103587057, exponent = - 69\<rparr>"
  "decimal 2 6 = Num \<lparr>mantissa = 4722366482869645, exponent = - 71\<rparr>"
  "decimal 4 6 = Num \<lparr>mantissa = 4722366482869645, exponent = - 70\<rparr>"
  by (simp_all add: decimal_def to_number_def nearest_double_rates)

lemma decimal_one:
  "decimal (Suc 0) 5 = Num \<lparr>mantissa = 5902958103587057, exponent = - 69\<rparr>"
  using decimal_rates(2) by simp

lemma cost_of_500_tokens:
  "nearest_double 500 1 0 = Some \<lparr>mantissa = 8796093022208000, exponent = - 44\<rparr>"
  "nearest_double (8796093022208000 * 4722366482869645) 1 (- 44 + - 71) =
     Some \<lparr>mantissa = 4611686018427388, exponent = - 62\<rparr>"
  by code_simp+

lemma calculateCost_priced:
  "calculateCost ''gpt-4'' tokens = js_times (number_of_nat tokens) (decimal 3 5)"
  "calculateCost ''gpt-4-turbo'' tokens = js_times (number_of_nat tokens) (decimal 1 5)"
  "calculateCost ''gpt-3.5-turbo'' tokens = js_times (number_of_nat tokens) (decimal 2 6)"
  "calculateCost ''gpt-3.5-turbo-16k'' tokens = js_times (number_of_nat tokens) (decimal 4 6)"
  by (simp_all add: calculateCost_def js_get_def pricing_def)


lemma priced_cost_accuracy:
  assumes t: "0 < tokens" "tokens < 9007199254740992"
    and c: "calculateCost model tokens = js_times (number_of_nat tokens) (decimal a k)"
    and r: "decimal a k = Num dr" and a: "0 < a"
    and x: "- 1000 \<le> exponent dr" "exponent dr \<le> 900"
  shows "\<exists>d. calculateCost model tokens = Num d
           \<and> \<bar>val d - of_nat tokens * (of_nat a / 10 ^ k)\<bar> \<le>
               of_nat tokens * (of_nat a / 10 ^ k) / 2251799813685248"
proof -
  let ?u = "9007199254740992 :: rat"
  let ?t = "of_nat tokens :: rat"
  let ?r = "of_nat a / 10 ^ k :: rat"
  from number_of_nat_exact [OF t] obtain dt where dt: "number_of_nat tokens = Num dt"
    "val dt = ?t" "4503599627370496 \<le> mantissa dt" "mantissa dt \<le> 9007199254740992"
    "- 52 \<le> exponent dt" "exponent dt \<le> 0"
    by blast
  have range: "- 1074 \<le> exponent dt + exponent dr" "exponent dt + exponent dr + 54 < 971"
    using dt(5,6) x by simp_all
  note er = decimal_error [OF r a]
  from js_times_error [OF dt(3,4) er(2,3) range] obtain d where
    d: "js_times (Num dt) (Num dr) = Num d"
    and ed: "\<bar>val d - val dt * val dr\<bar> \<le> val dt * val dr / ?u"
    by blast
  have tpos: "0 < ?t" using t(1) by simp
  have rpos: "0 < ?r" using a by simp
  have vr: "val dr \<le> ?r + ?r / ?u" using er(1) by (simp add: abs_le_iff)
  have vr0: "0 \<le> val dr"
  proof -
    have "?r - ?r / ?u \<le> val dr" using er(1) by (simp add: abs_le_iff)
    moreover have "0 \<le> ?r - ?r / ?u" using rpos by (simp add: field_simps)
    ultimately show ?thesis by linarith
  qed
  have e1: "\<bar>val d - ?t * val dr\<bar> \<le> ?t * (?r + ?r / ?u) / ?u"
  proof -
    have "?t * val dr \<le> ?t * (?r + ?r / ?u)" using vr tpos by (intro mult_left_mono) simp_all
    then have "?t * val dr / ?u \<le> ?t * (?r + ?r / ?u) / ?u" by (rule divide_right_mono) simp
    then show ?thesis using ed by (simp only: dt(2))
  qed
  have e2: "\<bar>?t * val dr - ?t * ?r\<bar> \<le> ?t * (?r / ?u)"
  proof -
    have "\<bar>?t * val dr - ?t * ?r\<bar> = ?t * \<bar>val dr - ?r\<bar>"
      using tpos by (simp only: right_diff_distrib [symmetric] abs_mult abs_of_pos)
    also have "\<dots> \<le> ?t * (?r / ?u)" using er(1) tpos by (intro mult_left_mono) simp_all
    finally show ?thesis .
  qed
  have "\<bar>val d - ?t * ?r\<bar> = \<bar>(val d - ?t * val dr) + (?t * val dr - ?t * ?r)\<bar>"
    by simp
  also have "\<dots> \<le> \<bar>val d - ?t * val dr\<bar> + \<bar>?t * val dr - ?t * ?r\<bar>"
    by (rule abs_triangle_ineq)
  also have "\<dots> \<le> ?t * (?r + ?r / ?u) / ?u + ?t * (?r / ?u)"
    using e1 e2 by linarith
  also have "\<dots> = ?t * ?r * (2 / ?u + 1 / (?u * ?u))"
    by (simp add: field_simps)
  also have "\<dots> \<le> ?t * ?r * (1 / 2251799813685248)"
    using tpos rpos by (intro mult_left_mono) simp_all
  finally have "\<bar>val d - ?t * ?r\<bar> \<le> ?t * ?r / 2251799813685248" by simp
  then show ?thesis using c d dt(1) r by simp
qed

text \<open>
  C9. For each model of the pricing table the cost is the token count times the
  model's rate, computed in double arithmetic: the product of the double of the count
  and the double of the rate's decimal literal, rounded to the nearest double. For a
  token count below \<open>2^53\<close> that result is a number within relative error \<open>2^-51\<close>
  of the exact product of count and decimal rate. A model name the table lacks, if
  it is not an inherited member's name, is charged at the \<^verbatim>\<open>gpt-3.5-turbo\<close> rate.
  At rate 0.000002 and 500 tokens the cost is the double nearest to 0.001, which
  differs from 0.001 by less than \<open>10^-18\<close>.
\<close>

theorem hosted_cost_calculation:
  "calculateCost ''gpt-4'' tokens = js_times (number_of_nat tokens) (decimal 3 5)
   \<and> calculateCost ''gpt-4-turbo'' tokens = js_times (number_of_nat tokens) (decimal 1 5)
   \<and> calculateCost ''gpt-3.5-turbo'' tokens = js_times (number_of_nat tokens) (decimal 2 6)
   \<and> calculateCost ''gpt-3.5-turbo-16k'' tokens = js_times (number_of_nat tokens) (decimal 4 6)
   \<and> (js_get pricing model = Undefined \<longrightarrow>
        calculateCost model tokens = js_times (number_of_nat tokens) (decimal 2 6))
   \<and> ((model, a, k) \<in> set pricing \<and> 0 < tokens \<and> tokens < 2 ^ 53 \<longrightarrow>
        (\<exists>d. calculateCost model tokens = Num d
           \<and> \<bar>val d - of_nat tokens * (of_nat a / 10 ^ k)\<bar> \<le>
               of_nat tokens * (of_nat a / 10 ^ k) / 2 ^ 51))
   \<and> calculateCost ''gpt-3.5-turbo'' 500 = Num \<lparr>mantissa = 4611686018427388, exponent = - 62\<rparr>
   \<and> \<bar>val \<lparr>mantissa = 4611686018427388, exponent = - 62\<rparr> - 1 / 1000\<bar> \<le> 1 / 10 ^ 18"
proof -
  have fallback: "js_get pricing model = Undefined \<longrightarrow>
        calculateCost model tokens = js_times (number_of_nat tokens) (decimal 2 6)"
    by (simp add: calculateCost_def)
  have general: "(model, a, k) \<in> set pricing \<and> 0 < tokens \<and> tokens < 2 ^ 53 \<longrightarrow>
        (\<exists>d. calculateCost model tokens = Num d
           \<and> \<bar>val d - of_nat tokens * (of_nat a / 10 ^ k)\<bar> \<le>
               of_nat tokens * (of_nat a / 10 ^ k) / 2 ^ 51)"
  proof (intro impI, elim conjE)
    assume m: "(model, a, k) \<in> set pricing" and t: "0 < tokens" "tokens < 2 ^ 53"
    have t': "tokens < 9007199254740992" using t(2) by simp
    from m have "\<exists>dr. calculateCost model tokens = js_times (number_of_nat tokens) (decimal a k)
                   \<and> decimal a k = Num dr \<and> 0 < a
                   \<and> - 1000 \<le> exponent dr \<and> exponent dr \<le> 900"
      by (auto simp: pricing_def calculateCost_priced decimal_rates decimal_one)
    then obtain dr where "calculateCost model tokens = js_times (number_of_nat tokens) (decimal a k)"
      "decimal a k = Num dr" "0 < a" "- 1000 \<le> exponent dr" "exponent dr \<le> 900" by blast
    from priced_cost_accuracy [OF t(1) t' this]
    show "\<exists>d. calculateCost model tokens = Num d
           \<and> \<bar>val d - of_nat tokens * (of_nat a / 10 ^ k)\<bar> \<le>
               of_nat tokens * (of_nat a / 10 ^ k) / 2 ^ 51"
      by simp
  qed
  have n500: "number_of_nat 500 = Num \<lparr>mantissa = 8796093022208000, exponent = - 44\<rparr>"
    using cost_of_500_tokens(1) by (simp add: number_of_nat_def to_number_def)
  have at500: "calculateCost ''gpt-3.5-turbo'' 500 =
                 Num \<lparr>mantissa = 4611686018427388, exponent = - 62\<rparr>"
    using cost_of_500_tokens(2)
    by (simp add: calculateCost_priced n500 decimal_rates to_number_def)
  have tol: "\<bar>val \<lparr>mantissa = 4611686018427388, exponent = - 62\<rparr> - 1 / 1000\<bar> \<le> 1 / 10 ^ 18"
    by (simp add: val_def power_int_minus)
  from calculateCost_priced [of tokens] fallback general at500 tol
  show ?thesis by (intro conjI)
qed

theorem hosted_cost_calculation_witness:
  "(''gpt-4'', 3, 5) \<in> set pricing \<and> (0::nat) < 1000 \<and> (1000::nat) < 2 ^ 53
   \<and> js_get pricing ''gpt-5'' = Undefined
   \<and> calculateCost ''gpt-5'' 1000 = js_times (number_of_nat 1000) (decimal 2 6)
   \<and> (\<exists>d. calculateCost ''gpt-4'' 1000 = Num d
         \<and> \<bar>val d - of_nat 1000 * (of_nat 3 / 10 ^ 5)\<bar> \<le> of_nat 1000 * (of_nat 3 / 10 ^ 5) / 2 ^ 51)"
proof -
  have m: "(''gpt-4'', 3, 5) \<in> set pricing" by (simp add: pricing_def)
  have u: "js_get pricing ''gpt-5'' = Undefined"
    by (simp add: js_get_def pricing_def object_prototype_keys_def)
  have t: "(0::nat) < 1000" "(1000::nat) < 2 ^ 53" by simp_all
  note inst = hosted_cost_calculation [of 1000 "''gpt-4''" 3 5]
    and inst2 = hosted_cost_calculation [of 1000 "''gpt-5''" 3 5]
  have g: "\<exists>d. calculateCost ''gpt-4'' 1000 = Num d
         \<and> \<bar>val d - of_nat 1000 * (of_nat 3 / 10 ^ 5)\<bar> \<le> of_nat 1000 * (of_nat 3 / 10 ^ 5) / 2 ^ 51"
    using inst m t by blast
  have f: "calculateCost ''gpt-5'' 1000 = js_times (number_of_nat 1000) (decimal 2 6)"
    using inst2 u by blast
  from m t u f g show ?thesis by (intro conjI)
qed


end

